theory Spec2Isabelle
  imports Complex_Main
begin

section \<open>Python strings\<close>

text \<open>
  A Python \<open>str\<close> is a sequence of Unicode code points; \<open>len\<close> counts code points.
  The labels of the market client are Cyrillic, so a string is modelled as the list of
  its code points.  \<open>ascii\<close> turns an Isabelle literal into such a list.

  The character tables of the interpreter (\<open>str.upper\<close>, \<open>str.isspace\<close>, which
  \<open>strip()\<close> uses, \<open>str.isdigit\<close>, and the decimal value \<open>float()\<close> gives a digit
  character) are not part of the repository.  They are a parameter \<open>U\<close> of every function
  that uses them, so a theorem holds for whatever tables the interpreter has.  \<open>upper\<close>
  maps whole strings, because upper-casing can change the length of a string.
\<close>

type_synonym ustring = "nat list"

definition ascii :: "string \<Rightarrow> ustring" where
  "ascii s = map of_char s"

record unicode =
  py_upper :: "ustring \<Rightarrow> ustring"
  py_isspace :: "nat \<Rightarrow> bool"
  py_isdigit :: "nat \<Rightarrow> bool"
  py_decimal :: "nat \<Rightarrow> nat option"

text \<open>
  The tables on ASCII and the Russian alphabet (U+0410 to U+044F, U+0401, U+0451), for
  evaluating the functions on concrete texts written in these characters.
\<close>

definition upper_cp :: "nat \<Rightarrow> nat" where
  "upper_cp c =
     (if 97 \<le> c \<and> c \<le> 122 then c - 32
      else if 1072 \<le> c \<and> c \<le> 1103 then c - 32
      else if c = 1105 then 1025
      else c)"

definition tbl :: unicode where
  "tbl = \<lparr> py_upper = map upper_cp,
           py_isspace = (\<lambda>c. (9 \<le> c \<and> c \<le> 13) \<or> (28 \<le> c \<and> c \<le> 32) \<or> c = 133 \<or> c = 160),
           py_isdigit = (\<lambda>c. 48 \<le> c \<and> c \<le> 57),
           py_decimal = (\<lambda>c. if 48 \<le> c \<and> c \<le> 57 then Some (c - 48) else None) \<rparr>"

text \<open>\<open>s.strip()\<close>: leading and trailing whitespace removed.\<close>

definition strip :: "unicode \<Rightarrow> ustring \<Rightarrow> ustring" where
  "strip U s = rev (dropWhile (py_isspace U) (rev (dropWhile (py_isspace U) s)))"

text \<open>\<open>s.split(sep)\<close> for a one-character separator: never the empty list.\<close>

fun split_sep :: "nat \<Rightarrow> ustring \<Rightarrow> ustring list" where
  "split_sep sep [] = [[]]"
| "split_sep sep (c # cs) =
     (if c = sep then [] # split_sep sep cs
      else (case split_sep sep cs of
              [] \<Rightarrow> [[c]]
            | w # ws \<Rightarrow> (c # w) # ws))"

text \<open>\<open>s.split(sep, 1)[-1]\<close>: the text after the first separator, or all of \<open>s\<close>.\<close>

fun after_first :: "nat \<Rightarrow> ustring \<Rightarrow> ustring" where
  "after_first sep s =
     (if sep \<in> set s then tl (dropWhile (\<lambda>c. c \<noteq> sep) s) else s)"

text \<open>\<open>sub in s\<close> on strings.\<close>

fun contains :: "ustring \<Rightarrow> ustring \<Rightarrow> bool" where
  "contains sub [] = (sub = [])"
| "contains sub (c # cs) = (take (length sub) (c # cs) = sub \<or> contains sub cs)"

text \<open>\<open>sep.join(parts)\<close>.\<close>

fun join :: "ustring \<Rightarrow> ustring list \<Rightarrow> ustring" where
  "join sep [] = []"
| "join sep [x] = x"
| "join sep (x # y # ys) = x @ sep @ join sep (y # ys)"

text \<open>\<open>xs.index(x)\<close>: the first position of \<open>x\<close>; \<open>None\<close> where Python raises ValueError.\<close>

fun index_of :: "'a \<Rightarrow> 'a list \<Rightarrow> nat option" where
  "index_of x [] = None"
| "index_of x (y # ys) =
     (if x = y then Some 0 else map_option Suc (index_of x ys))"

datatype exn = ValueError | AttributeError | ClientError | KeyError | OtherException

text \<open>
  The doubles the parser makes.  \<open>float\<close> is only ever applied to a decimal numeral,
  and the model names the double by that numeral instead of computing it:
  \<open>Double n k\<close> is what \<open>float\<close> returns for the numeral with the digits of \<open>n\<close>,
  the last \<open>k\<close> of them after the point, that is the double nearest to
  \<open>n / 10 ^ k\<close> (ties to even), and \<open>inf\<close> where that is beyond the range of
  doubles.  The program never tests two doubles for equality.
\<close>

datatype double = Double int nat

text \<open>
  \<open>v < 0\<close> on such a double.  The double of a negative numeral is below zero unless
  the numeral is so small that it rounds to \<open>-0.0\<close>, which is not below zero: that is
  where its magnitude is at most \<open>2 ^ -1075\<close>, half the smallest positive double.
\<close>

definition lt_zero :: "double \<Rightarrow> bool" where
  "lt_zero v = (case v of Double n k \<Rightarrow> n < 0 \<and> 10 ^ k < (- n) * 2 ^ 1075)"

text \<open>
  \<open>float(s)\<close> on the strings that reach it in the parser: only characters \<open>c\<close> with
  \<open>c.isdigit()\<close> or \<open>c = '.'\<close> (no sign, exponent, blank or underscore).  Such a string is
  a number when it has at most one dot, at least one digit, and every digit character is
  a decimal digit; anything else raises ValueError.
\<close>

fun digits_value :: "unicode \<Rightarrow> int \<Rightarrow> ustring \<Rightarrow> int option" where
  "digits_value U acc [] = Some acc"
| "digits_value U acc (c # cs) =
     (case py_decimal U c of
        None \<Rightarrow> None
      | Some d \<Rightarrow> digits_value U (10 * acc + int d) cs)"

definition py_float :: "unicode \<Rightarrow> ustring \<Rightarrow> exn + double" where
  "py_float U s =
     (case split_sep 46 s of
        [a] \<Rightarrow>
          (if a = [] then Inl ValueError
           else (case digits_value U 0 a of
                   None \<Rightarrow> Inl ValueError
                 | Some n \<Rightarrow> Inr (Double n 0)))
      | [a, b] \<Rightarrow>
          (if a = [] \<and> b = [] then Inl ValueError
           else (case digits_value U 0 (a @ b) of
                   None \<Rightarrow> Inl ValueError
                 | Some n \<Rightarrow> Inr (Double n (length b))))
      | _ \<Rightarrow> Inl ValueError)"

section \<open>The market client's response parser (services/perplexity_service.py)\<close>

text \<open>The dictionary \<open>_parse_response\<close> returns, with its three fixed keys.\<close>

record market_data =
  average_price :: "double option"
  min_price :: "double option"
  analysis :: ustring

text \<open>
  The six labels.  The Russian ones (average price, minimum price, analysis; upper
  case, each ending in a colon) are written as their code points.
\<close>

definition AVG_RU :: ustring where
  "AVG_RU = [1057, 1056, 1045, 1044, 1053, 1071, 1071, 32, 1062, 1045, 1053, 1040, 58]"

definition AVG_EN :: ustring where
  "AVG_EN = ascii ''AVERAGE PRICE:''"

definition MIN_RU :: ustring where
  "MIN_RU = [1052, 1048, 1053, 1048, 1052, 1040, 1051, 1068, 1053, 1040, 1071, 32,
             1062, 1045, 1053, 1040, 58]"

definition MIN_EN :: ustring where
  "MIN_EN = ascii ''MIN PRICE:''"

definition ANALYSIS_RU :: ustring where
  "ANALYSIS_RU = [1040, 1053, 1040, 1051, 1048, 1047, 58]"

definition ANALYSIS_EN :: ustring where
  "ANALYSIS_EN = ascii ''ANALYSIS:''"

text \<open>
  The text handed to \<open>float\<close> for a price line: what follows the last colon, stripped,
  every character dropped that is neither a digit nor \<open>.\<close> nor \<open>,\<close>, commas turned
  into dots.
\<close>

definition price_str :: "unicode \<Rightarrow> ustring \<Rightarrow> ustring" where
  "price_str U line =
     map (\<lambda>c. if c = 44 then 46 else c)
       (filter (\<lambda>c. py_isdigit U c \<or> c = 46 \<or> c = 44)
          (strip U (last (split_sep 58 line))))"

text \<open>
  The inner \<open>try\<close> of a price branch: the new value of the key, given its old one.  An
  empty \<open>price_str\<close> and a ValueError of \<open>float\<close> (caught and logged) both leave the
  key as it was.
\<close>

definition set_price ::
  "unicode \<Rightarrow> ustring \<Rightarrow> double option \<Rightarrow> double option" where
  "set_price U line old =
     (let p = price_str U line in
      if p = [] then old
      else (case py_float U p of
              Inl e \<Rightarrow> old
            | Inr v \<Rightarrow> Some v))"

text \<open>
  The analysis branch, once \<open>lines.index(line)\<close> has returned \<open>idx\<close>: the text after
  the first colon, then the stripped non-empty lines after position \<open>idx\<close>.
\<close>

definition analysis_text :: "unicode \<Rightarrow> ustring list \<Rightarrow> ustring \<Rightarrow> nat \<Rightarrow> ustring" where
  "analysis_text U lines line idx =
     (let t = strip U (after_first 58 line);
          remaining_lines = drop (idx + 1) lines in
      if remaining_lines = [] then t
      else t @ [32] @ join [32] (filter (\<lambda>l. l \<noteq> []) (map (strip U) remaining_lines)))"

text \<open>
  One pass of the \<open>for line in lines\<close> loop.  \<open>Inl\<close> is the exception that leaves the
  loop: \<open>lines.index(line)\<close> looks the \<^emph>\<open>stripped\<close> line up among the unstripped ones
  and raises ValueError when it is not there.
\<close>

definition process_line :: "unicode \<Rightarrow> ustring list \<Rightarrow> market_data \<Rightarrow> ustring \<Rightarrow> exn + market_data" where
  "process_line U lines result raw =
     (let line = strip U raw; up = py_upper U line in
      if contains AVG_RU up \<or> contains AVG_EN up then
        Inr (result\<lparr>average_price := set_price U line (average_price result)\<rparr>)
      else if contains MIN_RU up \<or> contains MIN_EN up then
        Inr (result\<lparr>min_price := set_price U line (min_price result)\<rparr>)
      else if contains ANALYSIS_RU up \<or> contains ANALYSIS_EN up then
        (case index_of line lines of
           None \<Rightarrow> Inl ValueError
         | Some idx \<Rightarrow> Inr (result\<lparr>analysis := analysis_text U lines line idx\<rparr>))
      else Inr result)"

text \<open>
  The loop.  The dictionary is updated in place, so when a pass raises, the keys set by
  the passes before it stay: the loop returns the dictionary together with the exception.
\<close>

fun parse_lines :: "unicode \<Rightarrow> ustring list \<Rightarrow> market_data \<Rightarrow> ustring list \<Rightarrow> market_data \<times> exn option" where
  "parse_lines U lines result [] = (result, None)"
| "parse_lines U lines result (raw # rest) =
     (case process_line U lines result raw of
        Inl e \<Rightarrow> (result, Some e)
      | Inr result' \<Rightarrow> parse_lines U lines result' rest)"

text \<open>
  \<open>_parse_response\<close>: the outer \<open>try\<close> catches every exception of the loop and puts
  the stripped response text into the analysis key; so does the check after the loop
  when the key is still empty.
\<close>

definition parse_response :: "unicode \<Rightarrow> ustring \<Rightarrow> exn + market_data" where
  "parse_response U response_text =
     (let result = \<lparr>average_price = None, min_price = None, analysis = []\<rparr>;
          lines = split_sep 10 (strip U response_text) in
      case parse_lines U lines result lines of
        (r, Some e) \<Rightarrow> Inr (r\<lparr>analysis := strip U response_text\<rparr>)
      | (r, None) \<Rightarrow>
          Inr (if analysis r = [] then r\<lparr>analysis := strip U response_text\<rparr> else r))"

section \<open>Document items and their extended models (models/)\<close>

datatype Sheet = JOBS | MATERIALS

text \<open>
  \<open>DocumentItem\<close> and its subclass \<open>GoodsDocumentItem\<close>.  The floats of an item
  come with the analysis and are only copied; they are modelled as rationals.
\<close>

record document_item =
  name :: ustring
  quantity :: rat
  unit :: "ustring option"
  price :: rat
  total :: rat

text \<open>\<open>GoodsDocumentItemExtended\<close> and \<open>JobsDocumentItemExtended\<close> add three fields.\<close>

record extended_item = document_item +
  average_market_price :: "double option"
  min_market_price :: "double option"
  market_analysis :: "ustring option"

text \<open>The default unit of \<open>GoodsDocumentItem\<close>, two Cyrillic letters ("sht", pieces).\<close>

definition SHT :: ustring where
  "SHT = [1096, 1090]"

definition handle_none_unit :: "ustring option \<Rightarrow> ustring option" where
  "handle_none_unit v = (case v of None \<Rightarrow> Some SHT | Some u \<Rightarrow> Some u)"

definition validate_market_prices :: "double option \<Rightarrow> exn + double option" where
  "validate_market_prices v =
     (case v of
        None \<Rightarrow> Inr None
      | Some p \<Rightarrow> if lt_zero p then Inl ValueError else Inr (Some p))"

definition validate_market_analysis :: "unicode \<Rightarrow> ustring option \<Rightarrow> ustring option" where
  "validate_market_analysis U v =
     (case v of
        None \<Rightarrow> None
      | Some s \<Rightarrow>
          (let s' = strip U s in
           if length s' = 0 then None
           else if length s' < 10 then None
           else Some s'))"

text \<open>
  Creating a \<open>GoodsDocumentItemExtended\<close>: the "before" validators run on the values
  passed in, and a ValueError of a validator (or the \<open>ge=0\<close> bound) makes the
  constructor raise.
\<close>

definition GoodsDocumentItemExtended ::
  "unicode \<Rightarrow> ustring \<Rightarrow> rat \<Rightarrow> ustring option \<Rightarrow> rat \<Rightarrow> rat \<Rightarrow>
   double option \<Rightarrow> double option \<Rightarrow> ustring option \<Rightarrow> exn + extended_item" where
  "GoodsDocumentItemExtended U n q u p t avg mn an =
     (case validate_market_prices avg of
        Inl e \<Rightarrow> Inl e
      | Inr a \<Rightarrow>
          (case validate_market_prices mn of
             Inl e \<Rightarrow> Inl e
           | Inr m \<Rightarrow>
               Inr \<lparr>name = n, quantity = q, unit = handle_none_unit u, price = p, total = t,
                    average_market_price = a, min_market_price = m,
                    market_analysis = validate_market_analysis U an\<rparr>))"

text \<open>
  Modelled from the spec: \<open>JobsDocumentItem\<close> (models/document_jobs.py is not among the
  sources).  The spec gives the jobs variant the shape of the goods variant, "differing
  only in default values"; what the jobs class does with a missing unit is the
  parameter \<open>J\<close>.  The validators of the three market fields are those of
  \<open>JobsDocumentItemExtended\<close>, which is in the sources and repeats the goods class.
\<close>

definition JobsDocumentItemExtended ::
  "unicode \<Rightarrow> (ustring option \<Rightarrow> ustring option) \<Rightarrow> ustring \<Rightarrow> rat \<Rightarrow> ustring option \<Rightarrow>
   rat \<Rightarrow> rat \<Rightarrow> double option \<Rightarrow> double option \<Rightarrow> ustring option \<Rightarrow>
   exn + extended_item" where
  "JobsDocumentItemExtended U J n q u p t avg mn an =
     (case validate_market_prices avg of
        Inl e \<Rightarrow> Inl e
      | Inr a \<Rightarrow>
          (case validate_market_prices mn of
             Inl e \<Rightarrow> Inl e
           | Inr m \<Rightarrow>
               Inr \<lparr>name = n, quantity = q, unit = J u, price = p, total = t,
                    average_market_price = a, min_market_price = m,
                    market_analysis = validate_market_analysis U an\<rparr>))"

section \<open>The market client's call (services/perplexity_service.py)\<close>

text \<open>
  What the HTTP exchange of one \<open>search_market_price\<close> call can come to: a transport
  or status error (\<open>aiohttp.ClientError\<close>), a body that is not the expected JSON
  (any other exception), a body without choices, or a body with a response text.
\<close>

datatype http_outcome = HttpError | BadPayload | NoChoices | Content ustring

text \<open>The analysis text of the empty answer ("information not found", in Russian).\<close>

definition INFO_NOT_FOUND :: ustring where
  "INFO_NOT_FOUND = [1048, 1085, 1092, 1086, 1088, 1084, 1072, 1094, 1080, 1103, 32, 1085,
                     1077, 32, 1085, 1072, 1081, 1076, 1077, 1085, 1072]"

definition search_market_price :: "unicode \<Rightarrow> http_outcome \<Rightarrow> exn + market_data" where
  "search_market_price U out =
     (case out of
        HttpError \<Rightarrow> Inl ClientError
      | BadPayload \<Rightarrow> Inl OtherException
      | NoChoices \<Rightarrow>
          Inr \<lparr>average_price = None, min_price = None, analysis = INFO_NOT_FOUND\<rparr>
      | Content response_text \<Rightarrow> parse_response U response_text)"

section \<open>Enrichment (utils/item_extended.py)\<close>

text \<open>
  Every call that leaves the process is recorded as an event, so that "no call was made"
  is a statement about the list of events a function returns: the calls of the analysis,
  market and spreadsheet clients, the writing of the local files, and (from \<open>SetState\<close>
  on) the steps of a chat handler.
\<close>

datatype event =
    AnalyzeImage
  | AnalyzeDocument
  | MarketCall ustring ustring
  | GetSheetsClient
  | OpenByKey ustring
  | GetWorksheet ustring
  | AddWorksheet ustring
  | RowValues
  | AppendRow
  | AppendRows nat
  | CreateLocalExcel
  | SaveLocalJson
  | SetState
  | Answer
  | GetFile
  | DownloadFile ustring
  | GetData
  | Unlink ustring
  | DeleteMessage
  | SendResult
  | ErrorAnswer
  | StateClear

text \<open>
  \<open>process_single_item\<close>, given the outcome of its market call.  Any exception of
  the \<open>try\<close> block (the call, or the constructor on a negative price) leads to the
  second constructor call, with the three market fields \<open>None\<close>; an exception of that
  one is raised again.
\<close>

definition process_single_item ::
  "unicode \<Rightarrow> (ustring option \<Rightarrow> ustring option) \<Rightarrow> Sheet option \<Rightarrow> http_outcome \<Rightarrow>
   document_item \<Rightarrow> exn + extended_item" where
  "process_single_item U J dt out item =
     (let attempt =
        (case search_market_price U out of
           Inl e \<Rightarrow> Inl e
         | Inr md \<Rightarrow>
             (let avg = average_price md; mn = min_price md; an = analysis md in
              if dt = Some MATERIALS then
                GoodsDocumentItemExtended U (name item) (quantity item) (unit item)
                  (price item) (total item) avg mn (if an \<noteq> [] then Some an else None)
              else
                JobsDocumentItemExtended U J (name item) (quantity item) (unit item)
                  (price item) (total item) avg mn (if an \<noteq> [] then Some an else None)))
      in case attempt of
           Inr extended \<Rightarrow> Inr extended
         | Inl ex \<Rightarrow>
             (if dt = Some MATERIALS then
                GoodsDocumentItemExtended U (name item) (quantity item) (unit item)
                  (price item) (total item) None None None
              else
                JobsDocumentItemExtended U J (name item) (quantity item) (unit item)
                  (price item) (total item) None None None))"

text \<open>
  \<open>asyncio.gather(*tasks, return_exceptions=False)\<close>: the results in the order of the
  tasks, or an exception of a task.
\<close>

fun gather :: "(exn + 'a) list \<Rightarrow> exn + 'a list" where
  "gather [] = Inr []"
| "gather (r # rs) =
     (case r of
        Inl e \<Rightarrow> Inl e
      | Inr x \<Rightarrow> (case gather rs of Inl e \<Rightarrow> Inl e | Inr xs \<Rightarrow> Inr (x # xs)))"

text \<open>The arguments of the market call for an item: its name and \<open>item.unit or SHT\<close>.\<close>

definition market_call :: "document_item \<Rightarrow> event" where
  "market_call item =
     MarketCall (name item)
       (case unit item of None \<Rightarrow> SHT | Some u \<Rightarrow> if u = [] then SHT else u)"

text \<open>
  \<open>extend_items\<close>.  \<open>market idx\<close> is the outcome of the call made for the item at
  position \<open>idx\<close>.  After the two checks the function creates
  \<open>asyncio.Semaphore(max_concurrent)\<close>, outside any \<open>try\<close>: a negative value makes
  the constructor raise ValueError; with the value 0 no task ever gets past
  \<open>async with semaphore\<close>, so no call is made and \<open>gather\<close> never returns, which is the
  result \<open>None\<close>.  With a positive value every task runs; the semaphore decides when,
  not what a task returns, and the model lists the calls in the order of the items.
\<close>

definition extend_items ::
  "unicode \<Rightarrow> (ustring option \<Rightarrow> ustring option) \<Rightarrow> document_item list \<Rightarrow> Sheet option \<Rightarrow>
   (nat \<Rightarrow> http_outcome) \<Rightarrow> int \<Rightarrow> (exn + extended_item list) option \<times> event list" where
  "extend_items U J its dt market max_concurrent =
     (if its = [] then (Some (Inr []), [])
      else if dt \<notin> set [Some MATERIALS, Some JOBS] then (Some (Inl ValueError), [])
      else if max_concurrent < 0 then (Some (Inl ValueError), [])
      else if max_concurrent = 0 then (None, [])
      else
        (Some (gather (map (\<lambda>(idx, item). process_single_item U J dt (market idx) item)
                         (enumerate 0 its))),
         map market_call its))"

section \<open>The processing pipeline (handlers/user/document.py, services/google_service.py)\<close>

text \<open>
  After enrichment the analysis holds extended items where it held plain ones, so an
  item of an analysis is one or the other; \<open>base\<close> reads the fields both have.
\<close>

datatype line_item = Plain document_item | WithMarket extended_item

fun base :: "line_item \<Rightarrow> document_item" where
  "base (Plain d) = d"
| "base (WithMarket e) = document_item.truncate e"

record DocumentAnalysis =
  document_type :: ustring
  document_number :: "ustring option"
  date :: "ustring option"
  supplier :: "ustring option"
  customer :: "ustring option"
  items :: "line_item list"
  total_amount :: rat
  currency :: "ustring option"
  confidence :: rat

text \<open>
  \<open>ProcessingResult\<close>.  The two constructor calls that also pass \<open>selected_project\<close>
  and \<open>document_type\<close> set no field by them: the model has no such fields and pydantic
  ignores unknown keywords by default.
\<close>

record ProcessingResult =
  success :: bool
  analysis :: "DocumentAnalysis option"
  error_message :: "ustring option"
  google_sheet_url :: "ustring option"
  local_excel_path :: "ustring option"
  local_json_path :: "ustring option"
  is_local_processing :: bool

text \<open>\<open>ProcessingResult(success=False, error_message=msg)\<close>: the other fields default.\<close>

definition failure :: "ustring \<Rightarrow> ProcessingResult" where
  "failure msg =
     \<lparr>success = False, analysis = None, error_message = Some msg, google_sheet_url = None,
      local_excel_path = None, local_json_path = None, is_local_processing = False\<rparr>"

text \<open>
  The Russian texts of the error messages, as code points: "document analysis service
  (Gemini) unavailable", its last word "unavailable", "could not analyse " followed by
  "image" or "document", "internal error: ", "could not create the Excel table",
  "could not save the JSON file".
\<close>

definition MSG_GEMINI_UNAVAILABLE :: ustring where
  "MSG_GEMINI_UNAVAILABLE =
     [1057, 1077, 1088, 1074, 1080, 1089, 32, 1072, 1085, 1072, 1083, 1080, 1079, 1072, 32,
      1076, 1086, 1082, 1091, 1084, 1077, 1085, 1090, 1086, 1074, 32, 40, 71, 101, 109, 105,
      110, 105, 41, 32, 1085, 1077, 1076, 1086, 1089, 1090, 1091, 1087, 1077, 1085]"

definition NEDOSTUPEN :: ustring where
  "NEDOSTUPEN = [1085, 1077, 1076, 1086, 1089, 1090, 1091, 1087, 1077, 1085]"

definition MSG_NOT_ANALYZED :: "bool \<Rightarrow> ustring" where
  "MSG_NOT_ANALYZED is_image =
     [1053, 1077, 32, 1091, 1076, 1072, 1083, 1086, 1089, 1100, 32, 1087, 1088, 1086, 1072,
      1085, 1072, 1083, 1080, 1079, 1080, 1088, 1086, 1074, 1072, 1090, 1100, 32]
     @ (if is_image
        then [1080, 1079, 1086, 1073, 1088, 1072, 1078, 1077, 1085, 1080, 1077]
        else [1076, 1086, 1082, 1091, 1084, 1077, 1085, 1090])"

definition MSG_INTERNAL :: ustring where
  "MSG_INTERNAL =
     [1042, 1085, 1091, 1090, 1088, 1077, 1085, 1085, 1103, 1103, 32, 1086, 1096, 1080, 1073,
      1082, 1072, 58, 32]"

definition MSG_NO_EXCEL :: ustring where
  "MSG_NO_EXCEL =
     [1053, 1077, 32, 1091, 1076, 1072, 1083, 1086, 1089, 1100, 32, 1089, 1086, 1079, 1076,
      1072, 1090, 1100, 32, 69, 120, 99, 101, 108, 32, 1090, 1072, 1073, 1083, 1080, 1094,
      1091]"

definition MSG_NO_JSON :: ustring where
  "MSG_NO_JSON =
     [1053, 1077, 32, 1091, 1076, 1072, 1083, 1086, 1089, 1100, 32, 1089, 1086, 1093, 1088,
      1072, 1085, 1080, 1090, 1100, 32, 74, 83, 79, 78, 32, 1092, 1072, 1081, 1083]"

text \<open>The outcomes of the spreadsheet library's calls.\<close>

datatype ws_outcome = WsFound | WsNotFound | WsError

datatype rv_outcome = Headers "ustring list" | RangeEmpty | ApiError

text \<open>
  Everything outside the process that the pipeline depends on: which services the
  configuration created, what each remote call comes to, and whether the local files
  can be written.  \<open>create_local_excel\<close> and \<open>save_local_json\<close> stand for the two
  functions of that name, which catch every exception and return a path or \<open>None\<close>.
\<close>

record world =
  gemini_service :: bool
  perplexity_service :: bool
  analyze :: "bool \<Rightarrow> exn + DocumentAnalysis option"
  market :: "nat \<Rightarrow> http_outcome"
  jobs_unit :: "ustring option \<Rightarrow> ustring option"
  pointname_to_sheetsid :: "ustring \<Rightarrow> ustring option"
  sheets_client :: bool
  open_by_key :: "ustring \<Rightarrow> exn + ustring"
  worksheet :: "ustring \<Rightarrow> ws_outcome"
  add_worksheet :: bool
  row_values :: rv_outcome
  append_row :: bool
  append_rows :: bool
  create_local_excel :: "ustring option"
  save_local_json :: "ustring option"
  exn_str :: "exn \<Rightarrow> ustring"

text \<open>Truth of an optional string: \<open>None\<close> and the empty string are false.\<close>

definition truthy :: "ustring option \<Rightarrow> bool" where
  "truthy v = (case v of None \<Rightarrow> False | Some s \<Rightarrow> s \<noteq> [])"

text \<open>
  \<open>GoogleService.add_data_to_spreadsheet\<close>.  Every exception ends in \<open>return None\<close>;
  the events up to it have happened.  Building the rows calls \<open>item.unit.lower()\<close>,
  an AttributeError when an item has no unit.
\<close>

definition add_data_to_spreadsheet ::
  "world \<Rightarrow> DocumentAnalysis \<Rightarrow> ustring option \<Rightarrow> ustring \<Rightarrow> ustring option \<times> event list" where
  "add_data_to_spreadsheet W a spreadsheet_id sheet_name =
     (if \<not> sheets_client W then (None, [GetSheetsClient])
      else
        (case spreadsheet_id of
           None \<Rightarrow> (None, [GetSheetsClient])
         | Some sid \<Rightarrow>
             if sid = [] then (None, [GetSheetsClient])
             else
               (case open_by_key W sid of
                  Inl e \<Rightarrow> (None, [GetSheetsClient, OpenByKey sid])
                | Inr url \<Rightarrow>
                    (let (ws_ok, tr1) =
                       (case worksheet W sheet_name of
                          WsFound \<Rightarrow> (True, [GetWorksheet sheet_name])
                        | WsNotFound \<Rightarrow>
                            (add_worksheet W,
                             [GetWorksheet sheet_name, AddWorksheet sheet_name])
                        | WsError \<Rightarrow> (False, [GetWorksheet sheet_name]));
                         tr_open = [GetSheetsClient, OpenByKey sid] @ tr1
                     in if \<not> ws_ok then (None, tr_open)
                        else
                          (case (case row_values W of
                                   Headers hs \<Rightarrow> Some hs
                                 | RangeEmpty \<Rightarrow> Some []
                                 | ApiError \<Rightarrow> None) of
                             None \<Rightarrow> (None, tr_open @ [RowValues])
                           | Some existing_headers \<Rightarrow>
                               (let (hdr_ok, tr2) =
                                  (if existing_headers = []
                                   then (append_row W, [RowValues, AppendRow])
                                   else (True, [RowValues]))
                                in if \<not> hdr_ok then (None, tr_open @ tr2)
                                   else if list_ex (\<lambda>i. unit (base i) = None) (items a)
                                   then (None, tr_open @ tr2)
                                   else if items a = [] then (Some url, tr_open @ tr2)
                                   else if append_rows W
                                   then (Some url,
                                         tr_open @ tr2 @ [AppendRows (length (items a))])
                                   else (None,
                                         tr_open @ tr2 @ [AppendRows (length (items a))])))))))"

definition process_with_local_storage ::
  "world \<Rightarrow> DocumentAnalysis \<Rightarrow> ProcessingResult \<times> event list" where
  "process_with_local_storage W a =
     (case create_local_excel W of
        None \<Rightarrow> (failure MSG_NO_EXCEL, [CreateLocalExcel])
      | Some excel_path \<Rightarrow>
          (case save_local_json W of
             None \<Rightarrow> (failure MSG_NO_JSON, [CreateLocalExcel, SaveLocalJson])
           | Some json_path \<Rightarrow>
               (\<lparr>success = True, analysis = Some a, error_message = None,
                 google_sheet_url = None, local_excel_path = Some excel_path,
                 local_json_path = Some json_path, is_local_processing = True\<rparr>,
                [CreateLocalExcel, SaveLocalJson])))"

text \<open>The value of a member of \<open>Sheet\<close>, the name of the worksheet.\<close>

fun sheet_value :: "Sheet \<Rightarrow> ustring" where
  "sheet_value JOBS = ascii ''jobs''"
| "sheet_value MATERIALS = ascii ''materials''"

text \<open>
  \<open>_process_with_google_services\<close>.  \<open>document_type.value\<close> on \<open>None\<close> is an
  AttributeError, caught by the \<open>except\<close> that turns to local storage.
\<close>

definition process_with_google_services ::
  "world \<Rightarrow> DocumentAnalysis \<Rightarrow> ustring option \<Rightarrow> Sheet option \<Rightarrow>
   ProcessingResult \<times> event list" where
  "process_with_google_services W a selected_project dt =
     (let spreadsheet_id =
        (case selected_project of
           None \<Rightarrow> None
         | Some project \<Rightarrow> if project = [] then None else pointname_to_sheetsid W project)
      in case dt of
           None \<Rightarrow> process_with_local_storage W a
         | Some sheet \<Rightarrow>
             (let (sheet_url, tr) = add_data_to_spreadsheet W a spreadsheet_id (sheet_value sheet)
              in if \<not> truthy sheet_url then
                   (let (r, tr') = process_with_local_storage W a in (r, tr @ tr'))
                 else
                   (\<lparr>success = True, analysis = Some a, error_message = None,
                     google_sheet_url = sheet_url, local_excel_path = None,
                     local_json_path = None, is_local_processing = False\<rparr>, tr)))"

text \<open>
  \<open>_process_document_pipeline\<close>.  The module globals \<open>gemini_service\<close> and
  \<open>perplexity_service\<close> are \<open>None\<close> when their API key is not configured.  An
  exception of \<open>extend_items\<close> is logged and the analysis keeps its items; any other
  exception becomes a failure result with its text.  The pipeline passes
  \<open>max_concurrent=2\<close>, with which \<open>extend_items\<close> always returns (lemma
  \<open>extend_items_limit_two\<close> below): the case \<open>None\<close> of the model, a call that
  never returns, does not arise here.
\<close>

definition process_document_pipeline ::
  "unicode \<Rightarrow> world \<Rightarrow> bool \<Rightarrow> ustring option \<Rightarrow> Sheet option \<Rightarrow>
   ProcessingResult \<times> event list" where
  "process_document_pipeline U W is_image selected_project dt =
     (if \<not> gemini_service W then (failure MSG_GEMINI_UNAVAILABLE, [])
      else
        (let ev = (if is_image then AnalyzeImage else AnalyzeDocument) in
         case analyze W is_image of
           Inl e \<Rightarrow> (failure (MSG_INTERNAL @ exn_str W e), [ev])
         | Inr None \<Rightarrow> (failure (MSG_NOT_ANALYZED is_image), [ev])
         | Inr (Some a) \<Rightarrow>
             (let (a', tr1) =
                (if perplexity_service W \<and> items a \<noteq> [] then
                   (case extend_items U (jobs_unit W) (map base (items a)) dt (market W) 2 of
                      (Some (Inl e), tr) \<Rightarrow> (a, tr)
                    | (Some (Inr extended_items), tr) \<Rightarrow>
                        (a\<lparr>items := map WithMarket extended_items\<rparr>, tr)
                    | (None, tr) \<Rightarrow> (a, tr))
                 else (a, []));
                  (r, tr2) = process_with_google_services W a' selected_project dt
              in (r, [ev] @ tr1 @ tr2))))"

section \<open>The upload handlers (handlers/user/document.py)\<close>

text \<open>
  What the chat side of a handler run can come to: each awaited call may raise, the
  download may fail with or without leaving a file, and the session data holds the
  selected project and the document type (or reading it raises).
\<close>

datatype download_outcome = Downloaded | DownloadFailed bool

record chat =
  set_state_ok :: bool
  answer_ok :: bool
  get_file_ok :: bool
  download_file :: download_outcome
  get_data :: "(ustring option \<times> Sheet option) option"
  unlink_ok :: bool
  send_ok :: bool

text \<open>
  The result of a handler run: the files that exist afterwards, the calls made, and the
  pipeline's result when the pipeline was reached.
\<close>

record handled =
  files :: "ustring set"
  calls :: "event list"
  outcome :: "ProcessingResult option"

text \<open>The handler's \<open>except\<close> branch: an error message to the user, the session cleared.\<close>

definition on_error :: "ustring set \<Rightarrow> event list \<Rightarrow> handled" where
  "on_error fs tr = \<lparr>files = fs, calls = tr @ [ErrorAnswer, StateClear], outcome = None\<rparr>"

text \<open>
  The body the two handlers share, line for line: set the state, announce the
  processing, fetch and download the attachment to \<open>file_path\<close>, read the session data,
  run the pipeline, \<open>file_path.unlink()\<close> inside its own \<open>try\<close> (a failure is logged
  and ignored), delete the announcement (likewise), send the result.  \<open>fs\<close> is the set
  of existing files; the pipeline does not touch \<open>file_path\<close>.
\<close>

definition handle_attachment ::
  "unicode \<Rightarrow> world \<Rightarrow> chat \<Rightarrow> ustring \<Rightarrow> bool \<Rightarrow> ustring set \<Rightarrow> handled" where
  "handle_attachment U W C file_path is_image fs =
     (if \<not> set_state_ok C then on_error fs [SetState]
      else if \<not> answer_ok C then on_error fs [SetState, Answer]
      else if \<not> get_file_ok C then on_error fs [SetState, Answer, GetFile]
      else
        (let tr0 = [SetState, Answer, GetFile, DownloadFile file_path] in
         case download_file C of
           DownloadFailed left \<Rightarrow> on_error (if left then insert file_path fs else fs) tr0
         | Downloaded \<Rightarrow>
             (let fs1 = insert file_path fs in
              case get_data C of
                None \<Rightarrow> on_error fs1 (tr0 @ [GetData])
              | Some (selected_project, dt) \<Rightarrow>
                  (let (result, tr) = process_document_pipeline U W is_image selected_project dt;
                       fs2 = (if unlink_ok C then fs1 - {file_path} else fs1);
                       tr1 = tr0 @ [GetData] @ tr @ [Unlink file_path, DeleteMessage, SendResult]
                   in if send_ok C
                      then \<lparr>files = fs2, calls = tr1, outcome = Some result\<rparr>
                      else \<lparr>files = fs2, calls = tr1 @ [ErrorAnswer, StateClear],
                            outcome = Some result\<rparr>))))"

text \<open>
  \<open>process_document_photo\<close> always passes \<open>is_image=True\<close>;
  \<open>process_document_file\<close> passes what \<open>_is_image_file\<close> says of the document.
\<close>

definition process_document_photo ::
  "unicode \<Rightarrow> world \<Rightarrow> chat \<Rightarrow> ustring \<Rightarrow> ustring set \<Rightarrow> handled" where
  "process_document_photo U W C file_path fs = handle_attachment U W C file_path True fs"

definition process_document_file ::
  "unicode \<Rightarrow> world \<Rightarrow> chat \<Rightarrow> ustring \<Rightarrow> bool \<Rightarrow> ustring set \<Rightarrow> handled" where
  "process_document_file U W C file_path is_image fs =
     handle_attachment U W C file_path is_image fs"

section \<open>Properties as the specification words them\<close>

text \<open>
  The invariant the specification gives for a \<open>ProcessingResult\<close>: on success
  exactly one of the remote link and the pair of local paths is there, and the flag
  says which; on failure none of the three is.
\<close>

definition result_invariant :: "ProcessingResult \<Rightarrow> bool" where
  "result_invariant r =
     (if success r then
        (truthy (google_sheet_url r) \<and> local_excel_path r = None \<and> local_json_path r = None
           \<and> is_local_processing r = False)
        \<or> (google_sheet_url r = None \<and> local_excel_path r \<noteq> None \<and> local_json_path r \<noteq> None
           \<and> is_local_processing r = True)
      else google_sheet_url r = None \<and> local_excel_path r = None \<and> local_json_path r = None)"

text \<open>The calls that reach the remote spreadsheet.\<close>

fun remote_sheet_event :: "event \<Rightarrow> bool" where
  "remote_sheet_event (OpenByKey k) = True"
| "remote_sheet_event (GetWorksheet n) = True"
| "remote_sheet_event (AddWorksheet n) = True"
| "remote_sheet_event RowValues = True"
| "remote_sheet_event AppendRow = True"
| "remote_sheet_event (AppendRows n) = True"
| "remote_sheet_event ev = False"

text \<open>
  The project's spreadsheet identifier cannot be resolved: no project is selected, or
  the mapping has no (or an empty) identifier for it.
\<close>

definition spreadsheet_unresolved :: "world \<Rightarrow> ustring option \<Rightarrow> bool" where
  "spreadsheet_unresolved W selected_project =
     (case selected_project of
        None \<Rightarrow> True
      | Some project \<Rightarrow> project = [] \<or> \<not> truthy (pointname_to_sheetsid W project))"

text \<open>The unit an extended item gets from the unit of the item it was made from.\<close>

definition unit_of ::
  "(ustring option \<Rightarrow> ustring option) \<Rightarrow> Sheet option \<Rightarrow> ustring option \<Rightarrow> ustring option" where
  "unit_of J dt u = (if dt = Some MATERIALS then handle_none_unit u else J u)"

text \<open>
  A line carries the analysis label, as the parser tests it: on the stripped line in
  upper case.
\<close>

definition analysis_label :: "unicode \<Rightarrow> ustring \<Rightarrow> bool" where
  "analysis_label U raw =
     (contains ANALYSIS_RU (py_upper U (strip U raw))
      \<or> contains ANALYSIS_EN (py_upper U (strip U raw)))"

text \<open>
  A double made from a numeral that is not negative: it is zero, positive or \<open>inf\<close>,
  and in particular not below zero (lemma \<open>not_negative_not_lt_zero\<close>).
\<close>

fun not_negative :: "double \<Rightarrow> bool" where
  "not_negative (Double n k) = (0 \<le> n)"

text \<open>The prices of a parsed answer, where present, are not negative.\<close>

definition prices_nonneg :: "market_data \<Rightarrow> bool" where
  "prices_nonneg r =
     ((case average_price r of None \<Rightarrow> True | Some p \<Rightarrow> not_negative p)
      \<and> (case min_price r of None \<Rightarrow> True | Some p \<Rightarrow> not_negative p))"

text \<open>
  A line carries the average-price label, or the minimum-price label, as the parser
  tests it: on the stripped line in upper case, in Russian or in English.
\<close>

definition avg_label :: "unicode \<Rightarrow> ustring \<Rightarrow> bool" where
  "avg_label U raw =
     (contains AVG_RU (py_upper U (strip U raw))
      \<or> contains AVG_EN (py_upper U (strip U raw)))"

definition min_label :: "unicode \<Rightarrow> ustring \<Rightarrow> bool" where
  "min_label U raw =
     (contains MIN_RU (py_upper U (strip U raw))
      \<or> contains MIN_EN (py_upper U (strip U raw)))"

text \<open>
  What the theorem on price lines needs of the character tables, and what holds of the
  interpreter's: a whitespace character is no digit, dot or comma, and a decimal digit
  is a digit character and no dot, comma or colon.
\<close>

definition sane :: "unicode \<Rightarrow> bool" where
  "sane U =
     ((\<forall>c. py_isspace U c \<longrightarrow> \<not> py_isdigit U c \<and> c \<noteq> 44 \<and> c \<noteq> 46)
      \<and> (\<forall>c. py_decimal U c \<noteq> None \<longrightarrow> py_isdigit U c \<and> c \<noteq> 44 \<and> c \<noteq> 46 \<and> c \<noteq> 58))"

text \<open>A text without digits, dots, commas and colons.\<close>

definition no_number_chars :: "unicode \<Rightarrow> ustring \<Rightarrow> bool" where
  "no_number_chars U s = list_all (\<lambda>c. \<not> py_isdigit U c \<and> c \<noteq> 44 \<and> c \<noteq> 46 \<and> c \<noteq> 58) s"

section \<open>Concrete inputs\<close>

definition cement :: document_item where
  "cement = \<lparr>name = ascii ''Cement M500'', quantity = 10, unit = Some (ascii ''bag''),
             price = 250, total = 2500\<rparr>"

definition brick :: document_item where
  "brick = \<lparr>name = ascii ''Red brick'', quantity = 1000, unit = None, price = 5,
            total = 5000\<rparr>"

text \<open>The first market call fails, every other one gets an answer without choices.\<close>

definition first_fails :: "nat \<Rightarrow> http_outcome" where
  "first_fails idx = (if idx = 0 then HttpError else NoChoices)"

definition no_market :: "nat \<Rightarrow> http_outcome" where
  "no_market idx = HttpError"

text \<open>A world in which nothing is configured and nothing can be reached or written.\<close>

definition offline_world :: world where
  "offline_world =
     \<lparr>gemini_service = False, perplexity_service = False, analyze = (\<lambda>i. Inr None),
      market = no_market, jobs_unit = handle_none_unit,
      pointname_to_sheetsid = (\<lambda>p. None), sheets_client = False,
      open_by_key = (\<lambda>k. Inl OtherException), worksheet = (\<lambda>n. WsError),
      add_worksheet = False, row_values = ApiError, append_row = False, append_rows = False,
      create_local_excel = None, save_local_json = None, exn_str = (\<lambda>e. [])\<rparr>"

text \<open>An analysis with one plain item.\<close>

definition invoice :: DocumentAnalysis where
  "invoice =
     \<lparr>document_type = ascii ''invoice'', document_number = Some (ascii ''17''),
      date = Some (ascii ''2025-07-18''), supplier = None, customer = None,
      items = [Plain cement], total_amount = 2500, currency = Some (ascii ''UAH''),
      confidence = 1\<rparr>"

text \<open>
  A world with the analysis service only, no spreadsheet mapped to any project, and
  local files that can be written.
\<close>

definition local_world :: world where
  "local_world =
     \<lparr>gemini_service = True, perplexity_service = False, analyze = (\<lambda>i. Inr (Some invoice)),
      market = no_market, jobs_unit = handle_none_unit,
      pointname_to_sheetsid = (\<lambda>p. None), sheets_client = True,
      open_by_key = (\<lambda>k. Inr (ascii ''https://sheet'')), worksheet = (\<lambda>n. WsFound),
      add_worksheet = True, row_values = RangeEmpty, append_row = True, append_rows = True,
      create_local_excel = Some (ascii ''excel_data/a.xlsx''),
      save_local_json = Some (ascii ''json_data/a.json''), exn_str = (\<lambda>e. [])\<rparr>"

text \<open>A handler run in which every step succeeds, and one in which \<open>unlink\<close> fails.\<close>

definition temp_path :: ustring where
  "temp_path = ascii ''temp_image_1_a.jpg''"

definition good_chat :: chat where
  "good_chat =
     \<lparr>set_state_ok = True, answer_ok = True, get_file_ok = True, download_file = Downloaded,
      get_data = Some (None, None), unlink_ok = True, send_ok = True\<rparr>"

definition stuck_chat :: chat where
  "stuck_chat = good_chat\<lparr>unlink_ok := False\<rparr>"

text \<open>An answer whose lines end in carriage return and line feed.\<close>

definition crlf_answer :: ustring where
  "crlf_answer = ascii ''Min price: 7'' @ [13, 10] @ ascii ''Analysis: a'' @ [13, 10] @ ascii ''b''"

text \<open>
  The answer of the specification's parsing example: the three Russian labels in upper
  case, "280,5" and "240" each followed by the currency, and the analysis
  "test source X".
\<close>

definition spec_example :: ustring where
  "spec_example =
     AVG_RU @ ascii '' 280,5 '' @ [1075, 1088, 1085, 10]
     @ MIN_RU @ ascii '' 240 '' @ [1075, 1088, 1085, 10]
     @ ANALYSIS_RU @ ascii '' test source X''"

section \<open>Enrichment: one extended item per item, in order\<close>

lemma gather_all_Inr:
  "\<forall>r \<in> set rs. \<exists>x. r = Inr x \<Longrightarrow> gather rs = Inr (map projr rs)"
  by (induction rs) auto

lemma fallback_goods:
  "GoodsDocumentItemExtended U n q u p t None None None
     = Inr \<lparr>name = n, quantity = q, unit = handle_none_unit u, price = p, total = t,
            average_market_price = None, min_market_price = None, market_analysis = None\<rparr>"
  by (simp add: GoodsDocumentItemExtended_def validate_market_prices_def
        validate_market_analysis_def)

lemma fallback_jobs:
  "JobsDocumentItemExtended U J n q u p t None None None
     = Inr \<lparr>name = n, quantity = q, unit = J u, price = p, total = t,
            average_market_price = None, min_market_price = None, market_analysis = None\<rparr>"
  by (simp add: JobsDocumentItemExtended_def validate_market_prices_def
        validate_market_analysis_def)

lemma goods_fields:
  "GoodsDocumentItemExtended U n q u p t a m an = Inr e \<Longrightarrow>
   name e = n \<and> quantity e = q \<and> unit e = handle_none_unit u \<and> price e = p \<and> total e = t
   \<and> market_analysis e = validate_market_analysis U an"
  by (auto simp: GoodsDocumentItemExtended_def split: sum.splits)

lemma jobs_fields:
  "JobsDocumentItemExtended U J n q u p t a m an = Inr e \<Longrightarrow>
   name e = n \<and> quantity e = q \<and> unit e = J u \<and> price e = p \<and> total e = t
   \<and> market_analysis e = validate_market_analysis U an"
  by (auto simp: JobsDocumentItemExtended_def split: sum.splits)

text \<open>
  A task never raises: the second constructor call gets no market value to reject.
\<close>

lemma process_single_item_returns:
  "\<exists>e. process_single_item U J dt out item = Inr e
       \<and> name e = name item \<and> quantity e = quantity item \<and> price e = price item
       \<and> total e = total item \<and> unit e = unit_of J dt (unit item)
       \<and> ((\<exists>ex. search_market_price U out = Inl ex) \<longrightarrow>
            average_market_price e = None \<and> min_market_price e = None
            \<and> market_analysis e = None)"
  unfolding process_single_item_def Let_def unit_of_def
  by (auto simp: fallback_goods fallback_jobs split: sum.splits
           dest: goods_fields jobs_fields)

text \<open>
  C1, as the code has it.  For a goods or jobs category, a positive \<open>max_concurrent\<close>
  and any outcomes of the market calls, \<open>extend_items\<close> returns (it neither raises
  nor blocks) a list as long as the input; the item at position \<open>i\<close> carries the
  name, quantity, price and total of the input item at position \<open>i\<close> and its unit
  (a missing unit replaced by the class's default); and where the market call for
  position \<open>i\<close> raised, the three market fields of that item are absent.
\<close>

theorem extend_items_total_in_order:
  assumes "dt = Some MATERIALS \<or> dt = Some JOBS"
    and "0 < max_concurrent"
  shows "\<exists>xs. fst (extend_items U J its dt outs max_concurrent) = Some (Inr xs)
           \<and> length xs = length its
           \<and> (\<forall>i < length its.
                 name (xs ! i) = name (its ! i)
               \<and> quantity (xs ! i) = quantity (its ! i)
               \<and> price (xs ! i) = price (its ! i)
               \<and> total (xs ! i) = total (its ! i)
               \<and> unit (xs ! i) = unit_of J dt (unit (its ! i))
               \<and> ((\<exists>ex. search_market_price U (outs i) = Inl ex) \<longrightarrow>
                     average_market_price (xs ! i) = None
                   \<and> min_market_price (xs ! i) = None
                   \<and> market_analysis (xs ! i) = None))"
proof (cases "its = []")
  case True
  then show ?thesis by (simp add: extend_items_def)
next
  case False
  define f where "f = (\<lambda>(idx, item). process_single_item U J dt (outs idx) item)"
  define rs where "rs = map f (enumerate 0 its)"
  have all_ok: "\<forall>r \<in> set rs. \<exists>x. r = Inr x"
    using process_single_item_returns unfolding rs_def f_def by fastforce
  have res: "fst (extend_items U J its dt outs max_concurrent) = Some (Inr (map projr rs))"
    using False assms gather_all_Inr [OF all_ok]
    by (auto simp: extend_items_def rs_def f_def)
  have nth: "map projr rs ! i = projr (process_single_item U J dt (outs i) (its ! i))"
    if "i < length its" for i
    using that by (simp add: rs_def f_def nth_enumerate_eq)
  have len: "length (map projr rs) = length its"
    by (simp add: rs_def)
  show ?thesis
  proof (intro exI conjI allI impI)
    show "fst (extend_items U J its dt outs max_concurrent) = Some (Inr (map projr rs))"
      by (rule res)
    show "length (map projr rs) = length its" by (rule len)
  next
    fix i assume i: "i < length its"
    obtain e where e: "process_single_item U J dt (outs i) (its ! i) = Inr e"
      and fields: "name e = name (its ! i)" "quantity e = quantity (its ! i)"
        "price e = price (its ! i)" "total e = total (its ! i)"
        "unit e = unit_of J dt (unit (its ! i))"
      and absent: "(\<exists>ex. search_market_price U (outs i) = Inl ex) \<longrightarrow>
            average_market_price e = None \<and> min_market_price e = None
            \<and> market_analysis e = None"
      using process_single_item_returns [of U J dt "outs i" "its ! i"] by blast
    have eq: "map projr rs ! i = e" using nth [OF i] e by simp
    show "name (map projr rs ! i) = name (its ! i)" using eq fields by simp
    show "quantity (map projr rs ! i) = quantity (its ! i)" using eq fields by simp
    show "price (map projr rs ! i) = price (its ! i)" using eq fields by simp
    show "total (map projr rs ! i) = total (its ! i)" using eq fields by simp
    show "unit (map projr rs ! i) = unit_of J dt (unit (its ! i))" using eq fields by simp
    assume "\<exists>ex. search_market_price U (outs i) = Inl ex"
    then show "average_market_price (map projr rs ! i) = None"
      "min_market_price (map projr rs ! i) = None"
      "market_analysis (map projr rs ! i) = None"
      using eq absent by simp_all
  qed
qed

theorem extend_items_total_in_order_witness:
  "(0::int) < 2
   \<and> length (projr (the (fst (extend_items tbl handle_none_unit [cement, brick]
                               (Some MATERIALS) first_fails 2)))) = 2
   \<and> name (projr (the (fst (extend_items tbl handle_none_unit [cement, brick]
                             (Some MATERIALS) first_fails 2))) ! 0) = name cement
   \<and> search_market_price tbl (first_fails 0) = Inl ClientError
   \<and> average_market_price
       (projr (the (fst (extend_items tbl handle_none_unit [cement, brick]
                           (Some MATERIALS) first_fails 2))) ! 0) = None"
  using extend_items_total_in_order
          [of "Some MATERIALS" 2 tbl handle_none_unit "[cement, brick]" first_fails]
  by (auto simp: search_market_price_def first_fails_def)

text \<open>
  C1 as the claim words it (for every call, with no condition on the concurrency
  limit) fails where \<open>max_concurrent\<close> is not positive: with a negative limit the
  whole call raises ValueError, and with the limit 0 it never returns; in both cases no
  market call is made, so no lookup has failed.
\<close>

theorem nonpositive_limit_no_items:
  "extend_items tbl handle_none_unit [cement, brick] (Some MATERIALS) first_fails (- 1)
     = (Some (Inl ValueError), [])
   \<and> extend_items tbl handle_none_unit [cement, brick] (Some MATERIALS) first_fails 0
     = (None, [])"
  by (simp add: extend_items_def cement_def brick_def)

text \<open>With the limit of the pipeline's call, 2, \<open>extend_items\<close> always returns.\<close>

lemma extend_items_limit_two: "fst (extend_items U J its dt outs 2) \<noteq> None"
  by (simp add: extend_items_def)

text \<open>
  C4, as the code has it.  A category other than goods and jobs makes \<open>extend_items\<close>
  raise ValueError with no market call made, when the list of items is not empty; the
  check for an empty list comes first and returns the empty list, also with no call.
  Both checks come before the semaphore, so this holds for every \<open>max_concurrent\<close>.
\<close>

theorem invalid_category_raises_before_calls:
  assumes "dt \<noteq> Some MATERIALS" and "dt \<noteq> Some JOBS"
  shows "extend_items U J its dt outs max_concurrent
           = (if its = [] then (Some (Inr []), []) else (Some (Inl ValueError), []))"
  using assms by (simp add: extend_items_def)

theorem invalid_category_raises_before_calls_witness:
  "extend_items tbl handle_none_unit [cement] None no_market 2
     = (Some (Inl ValueError), [])"
  using invalid_category_raises_before_calls
          [of None tbl handle_none_unit "[cement]" no_market 2]
  by simp

text \<open>
  C4 as the claim words it ("for every input items list") fails on the empty list: no
  ValueError is raised for a category that is neither goods nor jobs.
\<close>

theorem empty_list_no_error:
  "fst (extend_items tbl handle_none_unit [] None no_market 2) = Some (Inr [])
   \<and> fst (extend_items tbl handle_none_unit [] None no_market 2) \<noteq> Some (Inl ValueError)"
  by (simp add: extend_items_def)

section \<open>A short market analysis is stored as absent\<close>

lemma validate_short:
  "length (strip U s) < 10 \<Longrightarrow> validate_market_analysis U (Some s) = None"
  by (simp add: validate_market_analysis_def Let_def)

lemma validate_some:
  "validate_market_analysis U v = Some s \<Longrightarrow> 10 \<le> length s"
  by (auto simp: validate_market_analysis_def Let_def split: option.splits if_splits)

lemma validate_none: "validate_market_analysis U None = None"
  by (simp add: validate_market_analysis_def)

lemma process_single_item_analysis:
  assumes "process_single_item U J dt out item = Inr e"
  shows "market_analysis e = None
         \<or> (\<exists>md. search_market_price U out = Inr md
                \<and> market_analysis e
                    = validate_market_analysis U (Some (market_data.analysis md)))"
  using assms unfolding process_single_item_def Let_def
  by (auto simp: fallback_goods fallback_jobs validate_none split: sum.splits if_splits
           dest!: goods_fields jobs_fields)

lemma short_answer_item:
  "process_single_item tbl handle_none_unit (Some MATERIALS)
     (Content (ascii ''ANALYSIS: ok'')) cement
   = Inr \<lparr>name = ascii ''Cement M500'', quantity = 10, unit = Some (ascii ''bag''),
          price = 250, total = 2500, average_market_price = None,
          min_market_price = None, market_analysis = None\<rparr>"
  by code_simp

lemma short_answer_parsed:
  "search_market_price tbl (Content (ascii ''ANALYSIS: ok''))
     = Inr \<lparr>average_price = None, min_price = None, analysis = ascii ''ok''\<rparr>"
  by code_simp

text \<open>
  C7.  For the extended item a task of the enrichment returns: when the market answer's
  analysis text is, after stripping, shorter than 10 characters (this covers the empty
  and the blank text), its \<open>market_analysis\<close> is absent; a \<open>market_analysis\<close> that is
  present has at least 10 characters; and the validator alone turns every such short
  text into \<open>None\<close>.
\<close>

theorem short_analysis_absent:
  assumes "process_single_item U J dt out item = Inr e"
  shows "(\<forall>md. search_market_price U out = Inr md
               \<and> length (strip U (market_data.analysis md)) < 10
             \<longrightarrow> market_analysis e = None)
         \<and> (\<forall>s. market_analysis e = Some s \<longrightarrow> 10 \<le> length s)
         \<and> (\<forall>s. length (strip U s) < 10 \<longrightarrow> validate_market_analysis U (Some s) = None)"
proof (intro conjI allI impI)
  fix md
  assume "search_market_price U out = Inr md
          \<and> length (strip U (market_data.analysis md)) < 10"
  then show "market_analysis e = None"
    using process_single_item_analysis [OF assms] validate_short by fastforce
next
  fix s assume "market_analysis e = Some s"
  then show "10 \<le> length s"
    using process_single_item_analysis [OF assms] validate_some by fastforce
next
  fix s assume "length (strip U s) < 10"
  then show "validate_market_analysis U (Some s) = None" by (rule validate_short)
qed

theorem short_analysis_absent_witness:
  "search_market_price tbl (Content (ascii ''ANALYSIS: ok''))
     = Inr \<lparr>average_price = None, min_price = None, analysis = ascii ''ok''\<rparr>
   \<and> length (strip tbl (ascii ''ok'')) < 10
   \<and> market_analysis
       \<lparr>name = ascii ''Cement M500'', quantity = 10, unit = Some (ascii ''bag''),
        price = 250, total = 2500, average_market_price = None,
        min_market_price = None, market_analysis = None\<rparr> = None
   \<and> validate_market_analysis tbl (Some (ascii ''ok'')) = None"
  using short_analysis_absent [OF short_answer_item] short_answer_parsed
  by (simp add: strip_def tbl_def ascii_def)

section \<open>The pipeline's result\<close>

lemma invariant_failure: "result_invariant (failure msg)"
  by (simp add: result_invariant_def failure_def)

lemma invariant_local: "result_invariant (fst (process_with_local_storage W a))"
  by (simp add: process_with_local_storage_def result_invariant_def failure_def
           split: option.splits)

lemma invariant_google:
  "result_invariant (fst (process_with_google_services W a selected_project dt))"
proof (cases dt)
  case None
  then show ?thesis
    using invariant_local by (simp add: process_with_google_services_def)
next
  case (Some sheet)
  define call where "call = add_data_to_spreadsheet W a
      (case selected_project of None \<Rightarrow> None
       | Some project \<Rightarrow> if project = [] then None else pointname_to_sheetsid W project)
      (sheet_value sheet)"
  show ?thesis
  proof (cases "truthy (fst call)")
    case True
    then show ?thesis
      using Some
      by (simp add: process_with_google_services_def Let_def result_invariant_def
            case_prod_beta call_def)
  next
    case False
    then show ?thesis
      using Some invariant_local [of W a]
      by (simp add: process_with_google_services_def Let_def case_prod_beta call_def)
  qed
qed

text \<open>Where the analysis succeeds, the pipeline's result is that of the persistence step.\<close>

lemma pipeline_persists:
  assumes "gemini_service W" and "analyze W is_image = Inr (Some a)"
  shows "\<exists>a' tr. process_document_pipeline U W is_image selected_project dt
           = (fst (process_with_google_services W a' selected_project dt),
              (if is_image then AnalyzeImage else AnalyzeDocument) # tr
                @ snd (process_with_google_services W a' selected_project dt))
           \<and> (tr = [] \<or> tr = map market_call (map base (items a)))"
proof (cases "perplexity_service W \<and> items a \<noteq> []")
  case False
  then show ?thesis
    using assms
    by (auto simp add: process_document_pipeline_def Let_def case_prod_beta)
next
  case True
  then show ?thesis
    using assms
    by (cases "gather (map (\<lambda>(idx, item).
                   process_single_item U (jobs_unit W) dt (market W idx) item)
                   (enumerate 0 (map base (items a))))")
       (auto simp add: process_document_pipeline_def Let_def case_prod_beta extend_items_def)
qed

text \<open>
  C2.  Whatever the world does, the result the pipeline returns satisfies the invariant:
  on success either the remote link is there (a non-empty string), both local paths are
  absent and \<open>is_local_processing\<close> is false, or the link is absent, both local paths
  are there and \<open>is_local_processing\<close> is true; on failure the link and both paths
  are absent.
\<close>

theorem pipeline_result_invariant:
  "result_invariant (fst (process_document_pipeline U W is_image selected_project dt))"
proof (cases "gemini_service W")
  case False
  then show ?thesis
    by (simp add: process_document_pipeline_def invariant_failure)
next
  case True
  show ?thesis
  proof (cases "analyze W is_image")
    case (Inl e)
    then show ?thesis
      using True by (simp add: process_document_pipeline_def invariant_failure)
  next
    case (Inr r)
    show ?thesis
    proof (cases r)
      case None
      then show ?thesis
        using True Inr by (simp add: process_document_pipeline_def invariant_failure)
    next
      case (Some a)
      then obtain a' tr where "process_document_pipeline U W is_image selected_project dt
           = (fst (process_with_google_services W a' selected_project dt),
              (if is_image then AnalyzeImage else AnalyzeDocument) # tr
                @ snd (process_with_google_services W a' selected_project dt))"
        using pipeline_persists [OF True, of is_image a U selected_project dt] Inr by blast
      then show ?thesis
        using invariant_google [of W a' selected_project dt] by simp
    qed
  qed
qed

lemma unavailable_message: "contains NEDOSTUPEN MSG_GEMINI_UNAVAILABLE"
  by (simp add: NEDOSTUPEN_def MSG_GEMINI_UNAVAILABLE_def)

text \<open>
  C5.  With no analysis service configured the pipeline returns at once: the result is
  the failure with the message "... (Gemini) nedostupen", which contains the word
  "nedostupen" (unavailable), and the list of calls made is empty, so nothing was
  attempted, once or again.
\<close>

theorem pipeline_without_gemini:
  assumes "\<not> gemini_service W"
  shows "process_document_pipeline U W is_image selected_project dt
           = (failure MSG_GEMINI_UNAVAILABLE, [])
         \<and> success (failure MSG_GEMINI_UNAVAILABLE) = False
         \<and> error_message (failure MSG_GEMINI_UNAVAILABLE) = Some MSG_GEMINI_UNAVAILABLE
         \<and> contains NEDOSTUPEN MSG_GEMINI_UNAVAILABLE"
  using assms unavailable_message
  by (simp add: process_document_pipeline_def failure_def)

theorem pipeline_without_gemini_witness:
  "\<not> gemini_service offline_world
   \<and> process_document_pipeline tbl offline_world True None None
       = (failure MSG_GEMINI_UNAVAILABLE, [])"
  using pipeline_without_gemini [of offline_world tbl True None None]
  by (simp add: offline_world_def)

section \<open>An unresolved project goes to the local fallback\<close>

lemma add_data_unresolved:
  "\<not> truthy sid \<Longrightarrow> add_data_to_spreadsheet W a sid n = (None, [GetSheetsClient])"
  by (auto simp: add_data_to_spreadsheet_def truthy_def split: option.splits)

lemma resolve_unresolved:
  "spreadsheet_unresolved W selected_project \<Longrightarrow>
   \<not> truthy (case selected_project of None \<Rightarrow> None
              | Some project \<Rightarrow> if project = [] then None else pointname_to_sheetsid W project)"
  by (auto simp: spreadsheet_unresolved_def truthy_def split: option.splits)

lemma google_unresolved:
  assumes "spreadsheet_unresolved W selected_project"
  shows "process_with_google_services W a selected_project dt
           = (fst (process_with_local_storage W a),
              (if dt = None then [] else [GetSheetsClient])
                @ snd (process_with_local_storage W a))"
proof (cases dt)
  case None
  then show ?thesis by (simp add: process_with_google_services_def)
next
  case (Some sheet)
  then show ?thesis
    using add_data_unresolved [OF resolve_unresolved [OF assms]]
    by (simp add: process_with_google_services_def Let_def case_prod_beta truthy_def)
qed

lemma local_trace:
  "\<not> list_ex remote_sheet_event (snd (process_with_local_storage W a))"
  by (simp add: process_with_local_storage_def split: option.splits)

lemma local_success:
  "success (fst (process_with_local_storage W a)) \<longrightarrow>
   is_local_processing (fst (process_with_local_storage W a))"
  by (simp add: process_with_local_storage_def failure_def split: option.splits)

lemma market_calls_not_remote:
  "\<not> list_ex remote_sheet_event (map market_call xs)"
  by (induction xs) (simp_all add: market_call_def)

text \<open>
  C3.  When the spreadsheet identifier of the selected project cannot be resolved, the
  persistence step returns what the local fallback returns, and the only call before the
  two local writes is the creation of the spreadsheet client object
  (\<open>add_data_to_spreadsheet\<close> returns \<open>None\<close> at its check of the identifier,
  before \<open>open_by_key\<close>); the whole pipeline run makes no call to the remote
  spreadsheet, and a successful result of it is a local one.
\<close>

theorem unresolved_project_goes_local:
  assumes "spreadsheet_unresolved W selected_project"
  shows "process_with_google_services W a selected_project dt
           = (fst (process_with_local_storage W a),
              (if dt = None then [] else [GetSheetsClient])
                @ snd (process_with_local_storage W a))
         \<and> \<not> list_ex remote_sheet_event
               (snd (process_document_pipeline U W is_image selected_project dt))
         \<and> (success (fst (process_document_pipeline U W is_image selected_project dt)) \<longrightarrow>
              is_local_processing
                (fst (process_document_pipeline U W is_image selected_project dt)))"
proof (intro conjI)
  show "process_with_google_services W a selected_project dt
           = (fst (process_with_local_storage W a),
              (if dt = None then [] else [GetSheetsClient])
                @ snd (process_with_local_storage W a))"
    by (rule google_unresolved [OF assms])
next
  let ?p = "process_document_pipeline U W is_image selected_project dt"
  have "\<not> list_ex remote_sheet_event (snd ?p) \<and> (success (fst ?p) \<longrightarrow> is_local_processing (fst ?p))"
  proof (cases "gemini_service W")
    case False
    then show ?thesis by (simp add: process_document_pipeline_def failure_def)
  next
    case True
    show ?thesis
    proof (cases "analyze W is_image")
      case (Inl e)
      then show ?thesis using True by (simp add: process_document_pipeline_def failure_def)
    next
      case (Inr r)
      show ?thesis
      proof (cases r)
        case None
        then show ?thesis
          using True Inr by (simp add: process_document_pipeline_def failure_def)
      next
        case (Some b)
        then obtain b' tr where p: "?p
             = (fst (process_with_google_services W b' selected_project dt),
                (if is_image then AnalyzeImage else AnalyzeDocument) # tr
                  @ snd (process_with_google_services W b' selected_project dt))"
          and tr: "tr = [] \<or> tr = map market_call (map base (items b))"
          using pipeline_persists [OF True, of is_image b U selected_project dt] Inr by blast
        have "\<not> list_ex remote_sheet_event tr"
          using tr market_calls_not_remote [of "map base (items b)"] by (cases "tr = []") simp_all
        then show ?thesis
          using p google_unresolved [OF assms, of b' dt] local_trace [of W b']
            local_success [of W b']
          by (auto simp: list_ex_iff)
      qed
    qed
  qed
  then show "\<not> list_ex remote_sheet_event (snd ?p)"
    and "success (fst ?p) \<longrightarrow> is_local_processing (fst ?p)" by simp_all
qed

lemma local_run:
  "process_document_pipeline tbl local_world True (Some (ascii ''site A'')) (Some MATERIALS)
     = (\<lparr>success = True, analysis = Some invoice, error_message = None,
         google_sheet_url = None, local_excel_path = Some (ascii ''excel_data/a.xlsx''),
         local_json_path = Some (ascii ''json_data/a.json''), is_local_processing = True\<rparr>,
        [AnalyzeImage, GetSheetsClient, CreateLocalExcel, SaveLocalJson])"
  by (simp add: process_document_pipeline_def local_world_def process_with_google_services_def
        add_data_to_spreadsheet_def process_with_local_storage_def truthy_def ascii_def)

theorem unresolved_project_goes_local_witness:
  "spreadsheet_unresolved local_world (Some (ascii ''site A''))
   \<and> snd (process_document_pipeline tbl local_world True (Some (ascii ''site A'')) (Some MATERIALS))
       = [AnalyzeImage, GetSheetsClient, CreateLocalExcel, SaveLocalJson]
   \<and> success (fst (process_document_pipeline tbl local_world True (Some (ascii ''site A''))
                     (Some MATERIALS)))
   \<and> is_local_processing
       (fst (process_document_pipeline tbl local_world True (Some (ascii ''site A''))
              (Some MATERIALS)))"
  using unresolved_project_goes_local
          [of local_world "Some (ascii ''site A'')" invoice "Some MATERIALS" tbl True]
        local_run
  by (simp add: spreadsheet_unresolved_def local_world_def truthy_def)

section \<open>The temporary file of an upload\<close>

lemma handle_attachment_reached:
  assumes "set_state_ok C" and "answer_ok C" and "get_file_ok C"
    and "download_file C = Downloaded" and "get_data C = Some (selected_project, dt)"
  shows "handle_attachment U W C file_path is_image fs
           = \<lparr>files = (if unlink_ok C then insert file_path fs - {file_path}
                       else insert file_path fs),
              calls = [SetState, Answer, GetFile, DownloadFile file_path, GetData]
                      @ snd (process_document_pipeline U W is_image selected_project dt)
                      @ [Unlink file_path, DeleteMessage, SendResult]
                      @ (if send_ok C then [] else [ErrorAnswer, StateClear]),
              outcome = Some (fst (process_document_pipeline U W is_image selected_project dt))\<rparr>"
  using assms by (simp add: handle_attachment_def Let_def case_prod_beta)

lemma outcome_reached:
  assumes "outcome (handle_attachment U W C file_path is_image fs) = Some r"
  shows "set_state_ok C \<and> answer_ok C \<and> get_file_ok C \<and> download_file C = Downloaded
         \<and> (\<exists>selected_project dt. get_data C = Some (selected_project, dt))"
  using assms
  by (auto simp: handle_attachment_def on_error_def Let_def
           split: if_splits download_outcome.splits option.splits)

text \<open>The pipeline itself never removes a file: none of its calls is an \<open>Unlink\<close>.\<close>

lemma add_data_no_unlink:
  "Unlink p \<notin> set (snd (add_data_to_spreadsheet W a sid n))"
  by (auto simp: add_data_to_spreadsheet_def Let_def
           split: option.splits sum.splits ws_outcome.splits rv_outcome.splits if_splits)

lemma local_no_unlink: "Unlink p \<notin> set (snd (process_with_local_storage W a))"
  by (simp add: process_with_local_storage_def split: option.splits)

lemma google_no_unlink:
  "Unlink p \<notin> set (snd (process_with_google_services W a selected_project dt))"
  using add_data_no_unlink local_no_unlink [of p W a]
  by (cases dt) (auto simp: process_with_google_services_def Let_def case_prod_beta)

lemma market_calls_no_unlink: "Unlink p \<notin> set (map market_call xs)"
  by (induction xs) (simp_all add: market_call_def)

lemma pipeline_no_unlink:
  "Unlink p \<notin> set (snd (process_document_pipeline U W is_image selected_project dt))"
proof (cases "gemini_service W")
  case False
  then show ?thesis by (simp add: process_document_pipeline_def)
next
  case True
  show ?thesis
  proof (cases "analyze W is_image")
    case (Inl e)
    then show ?thesis using True by (simp add: process_document_pipeline_def)
  next
    case (Inr res)
    show ?thesis
    proof (cases res)
      case None
      then show ?thesis using True Inr by (simp add: process_document_pipeline_def)
    next
      case (Some a)
      then obtain a' tr where run: "process_document_pipeline U W is_image selected_project dt
           = (fst (process_with_google_services W a' selected_project dt),
              (if is_image then AnalyzeImage else AnalyzeDocument) # tr
                @ snd (process_with_google_services W a' selected_project dt))"
        and tr: "tr = [] \<or> tr = map market_call (map base (items a))"
        using pipeline_persists [OF True, of is_image a U selected_project dt] Inr by blast
      have "Unlink p \<notin> set tr"
        using tr market_calls_no_unlink [of p "map base (items a)"]
        by (cases "tr = []") simp_all
      then show ?thesis
        using run google_no_unlink [of p W a' selected_project dt] by auto
    qed
  qed
qed

lemma removal_after_pipeline:
  assumes "outcome (handle_attachment U W C file_path is_image fs) = Some r"
  shows "\<exists>selected_project dt.
           get_data C = Some (selected_project, dt)
         \<and> r = fst (process_document_pipeline U W is_image selected_project dt)
         \<and> calls (handle_attachment U W C file_path is_image fs)
             = [SetState, Answer, GetFile, DownloadFile file_path, GetData]
               @ snd (process_document_pipeline U W is_image selected_project dt)
               @ [Unlink file_path, DeleteMessage, SendResult]
               @ (if send_ok C then [] else [ErrorAnswer, StateClear])
         \<and> Unlink file_path
             \<notin> set (snd (process_document_pipeline U W is_image selected_project dt))
         \<and> (unlink_ok C \<longrightarrow>
               file_path \<notin> files (handle_attachment U W C file_path is_image fs))
         \<and> (\<not> unlink_ok C \<longrightarrow>
               file_path \<in> files (handle_attachment U W C file_path is_image fs))"
proof -
  obtain selected_project dt where reached: "set_state_ok C" "answer_ok C" "get_file_ok C"
      "download_file C = Downloaded" "get_data C = Some (selected_project, dt)"
    using outcome_reached [OF assms] by blast
  note eq = handle_attachment_reached [OF reached, of U W file_path is_image fs]
  have "r = fst (process_document_pipeline U W is_image selected_project dt)"
    using assms by (simp add: eq)
  then show ?thesis
    using reached(5) pipeline_no_unlink [of file_path U W is_image selected_project dt]
    by (intro exI [of _ selected_project] exI [of _ dt]) (simp add: eq)
qed

text \<open>
  C8, as the code has it.  In both handlers, whenever the pipeline call was reached and
  returned a result \<open>r\<close> (success or failure), the calls of the handler are: the five
  steps up to reading the session data, then the calls of the pipeline run that gave
  \<open>r\<close>, then \<open>unlink\<close> of the temporary file, then the rest.  So the removal is
  attempted after the pipeline has returned, whatever its outcome, and not before (the
  pipeline makes no such call).  The file is gone at the end of the handler when
  \<open>unlink\<close> succeeds, and is still there when it fails (the failure is logged and
  ignored).
\<close>

theorem temp_file_removal_attempted:
  assumes "h = process_document_photo U W C file_path fs \<and> img = True
           \<or> h = process_document_file U W C file_path img fs"
    and "outcome h = Some r"
  shows "\<exists>selected_project dt.
           get_data C = Some (selected_project, dt)
         \<and> r = fst (process_document_pipeline U W img selected_project dt)
         \<and> calls h
             = [SetState, Answer, GetFile, DownloadFile file_path, GetData]
               @ snd (process_document_pipeline U W img selected_project dt)
               @ [Unlink file_path, DeleteMessage, SendResult]
               @ (if send_ok C then [] else [ErrorAnswer, StateClear])
         \<and> Unlink file_path
             \<notin> set (snd (process_document_pipeline U W img selected_project dt))
         \<and> (unlink_ok C \<longrightarrow> file_path \<notin> files h)
         \<and> (\<not> unlink_ok C \<longrightarrow> file_path \<in> files h)"
proof -
  have "h = handle_attachment U W C file_path img fs"
    using assms(1) by (auto simp: process_document_photo_def process_document_file_def)
  then show ?thesis
    using removal_after_pipeline [of U W C file_path img fs r] assms(2) by simp
qed

lemma good_run:
  "process_document_photo tbl offline_world good_chat temp_path {}
     = \<lparr>files = {}, 
        calls = [SetState, Answer, GetFile, DownloadFile temp_path, GetData,
                 Unlink temp_path, DeleteMessage, SendResult],
        outcome = Some (failure MSG_GEMINI_UNAVAILABLE)\<rparr>"
  by (simp add: process_document_photo_def handle_attachment_def good_chat_def
        process_document_pipeline_def offline_world_def)

theorem temp_file_removal_attempted_witness:
  "outcome (process_document_photo tbl offline_world good_chat temp_path {})
     = Some (failure MSG_GEMINI_UNAVAILABLE)
   \<and> unlink_ok good_chat
   \<and> calls (process_document_photo tbl offline_world good_chat temp_path {})
       = [SetState, Answer, GetFile, DownloadFile temp_path, GetData,
          Unlink temp_path, DeleteMessage, SendResult]
   \<and> temp_path \<notin> files (process_document_photo tbl offline_world good_chat temp_path {})"
  using temp_file_removal_attempted
          [of "process_document_photo tbl offline_world good_chat temp_path {}"
              tbl offline_world good_chat temp_path "{}" True "failure MSG_GEMINI_UNAVAILABLE"]
        good_run
  by (simp add: good_chat_def)

text \<open>
  C8 as the claim words it ("removed on every execution path") fails where \<open>unlink\<close>
  raises: the pipeline has returned its result and the temporary file still exists
  when the handler ends.
\<close>

theorem temp_file_left_behind:
  "outcome (process_document_photo tbl offline_world stuck_chat temp_path {})
     = Some (failure MSG_GEMINI_UNAVAILABLE)
   \<and> temp_path \<in> files (process_document_photo tbl offline_world stuck_chat temp_path {})"
  by (simp add: process_document_photo_def handle_attachment_def stuck_chat_def good_chat_def
        process_document_pipeline_def offline_world_def)

section \<open>The parser is total\<close>

lemma digits_value_nonneg:
  "0 \<le> acc \<Longrightarrow> digits_value U acc cs = Some n \<Longrightarrow> 0 \<le> n"
proof (induction cs arbitrary: acc)
  case Nil
  then show ?case by simp
next
  case (Cons c cs)
  then obtain d where d: "py_decimal U c = Some d"
    and rest: "digits_value U (10 * acc + int d) cs = Some n"
    by (auto split: option.splits)
  have "0 \<le> 10 * acc + int d" using Cons.prems(1) by simp
  then show ?case using Cons.IH rest by blast
qed

lemma not_negative_not_lt_zero: "not_negative v \<Longrightarrow> \<not> lt_zero v"
  by (cases v) (simp add: lt_zero_def)

lemma py_float_nonneg:
  assumes "py_float U s = Inr v"
  shows "not_negative v"
proof -
  have "\<And>xs n. digits_value U 0 xs = Some n \<Longrightarrow> 0 \<le> n"
    using digits_value_nonneg [of 0] by simp
  then show ?thesis
    using assms unfolding py_float_def
    by (auto split: list.splits if_splits option.splits)
qed

lemma set_price_nonneg:
  assumes "case old of None \<Rightarrow> True | Some p \<Rightarrow> not_negative p"
  shows "case set_price U line old of None \<Rightarrow> True | Some p \<Rightarrow> not_negative p"
  using assms py_float_nonneg
  by (auto simp: set_price_def Let_def split: sum.splits option.splits)

lemma process_line_nonneg:
  assumes "prices_nonneg r" and "process_line U lines r raw = Inr r'"
  shows "prices_nonneg r'"
  using assms set_price_nonneg [of "average_price r" U "strip U raw"]
    set_price_nonneg [of "min_price r" U "strip U raw"]
  by (auto simp: process_line_def Let_def prices_nonneg_def split: if_splits option.splits)

lemma parse_lines_nonneg:
  "prices_nonneg r \<Longrightarrow> prices_nonneg (fst (parse_lines U lines r rest))"
proof (induction rest arbitrary: r)
  case Nil
  then show ?case by simp
next
  case (Cons raw rest)
  then show ?case
    by (cases "process_line U lines r raw") (auto dest: process_line_nonneg)
qed

lemma process_line_keeps_analysis:
  assumes "\<not> analysis_label U raw" and "process_line U lines r raw = Inr r'"
  shows "market_data.analysis r' = market_data.analysis r"
  using assms
  by (auto simp: process_line_def Let_def analysis_label_def split: if_splits)

lemma process_line_no_label_returns:
  assumes "\<not> analysis_label U raw"
  shows "\<exists>r'. process_line U lines r raw = Inr r'"
  using assms
  by (auto simp: process_line_def Let_def analysis_label_def)

lemma parse_lines_keeps_analysis:
  "\<forall>l \<in> set rest. \<not> analysis_label U l \<Longrightarrow>
   market_data.analysis (fst (parse_lines U lines r rest)) = market_data.analysis r
   \<and> snd (parse_lines U lines r rest) = None"
proof (induction rest arbitrary: r)
  case Nil
  then show ?case by simp
next
  case (Cons raw rest)
  then obtain r' where r': "process_line U lines r raw = Inr r'"
    using process_line_no_label_returns [of U raw lines r] by auto
  then have "market_data.analysis r' = market_data.analysis r"
    using Cons.prems process_line_keeps_analysis [of U raw lines r r'] by simp
  then show ?case
    using Cons r' by simp
qed

text \<open>
  C10.  For every response text \<open>_parse_response\<close> returns a dictionary (no
  exception leaves it); a price in it, where present, is the double of a numeral that
  is not negative, so it is not negative; its analysis is a string, and it is the whole
  stripped response both when no line carries the analysis label and when the loop over
  the lines raised.
\<close>

theorem parse_response_total:
  "\<exists>r. parse_response U response_text = Inr r
       \<and> prices_nonneg r
       \<and> ((\<forall>l \<in> set (split_sep 10 (strip U response_text)). \<not> analysis_label U l)
            \<longrightarrow> market_data.analysis r = strip U response_text)
       \<and> (snd (parse_lines U (split_sep 10 (strip U response_text))
                  \<lparr>average_price = None, min_price = None, analysis = []\<rparr>
                  (split_sep 10 (strip U response_text))) \<noteq> None
            \<longrightarrow> market_data.analysis r = strip U response_text)"
proof -
  define lines where "lines = split_sep 10 (strip U response_text)"
  define init where "init = \<lparr>average_price = None, min_price = None, analysis = []\<rparr>"
  define res where "res = parse_lines U lines init lines"
  have nn: "prices_nonneg (fst res)"
    unfolding res_def by (rule parse_lines_nonneg) (simp add: prices_nonneg_def init_def)
  have keep: "\<forall>l \<in> set lines. \<not> analysis_label U l \<Longrightarrow>
      market_data.analysis (fst res) = [] \<and> snd res = None"
    using parse_lines_keeps_analysis [of lines U lines init] by (simp add: res_def init_def)
  have eq: "parse_response U response_text =
      (case res of
        (r, Some e) \<Rightarrow> Inr (r\<lparr>market_data.analysis := strip U response_text\<rparr>)
      | (r, None) \<Rightarrow>
          Inr (if market_data.analysis r = []
               then r\<lparr>market_data.analysis := strip U response_text\<rparr> else r))"
    by (simp add: parse_response_def Let_def res_def lines_def init_def)
  show ?thesis
  proof (cases "snd res")
    case None
    then have "parse_response U response_text =
        Inr (if market_data.analysis (fst res) = []
             then (fst res)\<lparr>market_data.analysis := strip U response_text\<rparr>
             else fst res)"
      using eq by (cases res) simp
    then show ?thesis
      using nn keep None
      by (auto simp: prices_nonneg_def lines_def [symmetric] init_def [symmetric]
            res_def [symmetric])
  next
    case (Some e)
    then have "parse_response U response_text
        = Inr ((fst res)\<lparr>market_data.analysis := strip U response_text\<rparr>)"
      using eq by (cases res) simp
    then show ?thesis
      using nn by (auto simp: prices_nonneg_def)
  qed
qed

lemma crlf_parsed:
  "parse_response tbl crlf_answer
     = Inr \<lparr>average_price = None, min_price = Some (Double 7 0), analysis = crlf_answer\<rparr>"
  by code_simp

lemma crlf_raises:
  "snd (parse_lines tbl (split_sep 10 (strip tbl crlf_answer))
          \<lparr>average_price = None, min_price = None, analysis = []\<rparr>
          (split_sep 10 (strip tbl crlf_answer))) = Some ValueError"
  by code_simp

theorem parse_response_total_witness:
  "parse_response tbl crlf_answer
     = Inr \<lparr>average_price = None, min_price = Some (Double 7 0), analysis = crlf_answer\<rparr>
   \<and> snd (parse_lines tbl (split_sep 10 (strip tbl crlf_answer))
          \<lparr>average_price = None, min_price = None, analysis = []\<rparr>
          (split_sep 10 (strip tbl crlf_answer))) = Some ValueError
   \<and> strip tbl crlf_answer = crlf_answer
   \<and> prices_nonneg \<lparr>average_price = None, min_price = Some (Double 7 0), analysis = crlf_answer\<rparr>"
  using parse_response_total [of tbl crlf_answer] crlf_parsed crlf_raises
  by auto

section \<open>The price of a labelled line\<close>

lemma split_sep_nonempty: "split_sep sep s \<noteq> []"
  by (induction s) (auto split: list.splits)

lemma split_sep_no_sep: "sep \<notin> set t \<Longrightarrow> split_sep sep t = [t]"
  by (induction t) auto

lemma split_sep_two:
  "sep \<notin> set a \<Longrightarrow> sep \<notin> set b \<Longrightarrow> split_sep sep (a @ sep # b) = [a, b]"
  by (induction a) (auto simp: split_sep_no_sep)

lemma split_sep_ge2: "\<exists>w w' ws. split_sep sep (h @ sep # t) = w # w' # ws"
proof (induction h)
  case Nil
  then show ?case
    using split_sep_nonempty [of sep t] by (cases "split_sep sep t") auto
next
  case (Cons c h)
  then show ?case by auto
qed

lemma split_sep_last:
  "sep \<notin> set t \<Longrightarrow> last (split_sep sep (h @ sep # t)) = t"
proof (induction h)
  case Nil
  then show ?case by (simp add: split_sep_no_sep)
next
  case (Cons c h)
  obtain w w' ws where "split_sep sep (h @ sep # t) = w # w' # ws"
    using split_sep_ge2 by blast
  then show ?case using Cons by auto
qed

lemma filter_dropWhile:
  "(\<And>c. Q c \<Longrightarrow> \<not> P c) \<Longrightarrow> filter P (dropWhile Q xs) = filter P xs"
  by (induction xs) auto

lemma filter_strip:
  assumes "\<And>c. py_isspace U c \<Longrightarrow> \<not> P c"
  shows "filter P (strip U s) = filter P s"
proof -
  have "filter P (strip U s)
          = rev (filter P (dropWhile (py_isspace U) (rev (dropWhile (py_isspace U) s))))"
    by (simp add: strip_def rev_filter)
  also have "\<dots> = rev (filter P (rev (dropWhile (py_isspace U) s)))"
    using filter_dropWhile [of "py_isspace U" P] assms by simp
  also have "\<dots> = filter P (dropWhile (py_isspace U) s)"
    by (simp add: rev_filter)
  also have "\<dots> = filter P s"
    using filter_dropWhile [of "py_isspace U" P] assms by simp
  finally show ?thesis .
qed

lemma digits_value_decimal:
  "digits_value U acc xs = Some n \<Longrightarrow> \<forall>c \<in> set xs. py_decimal U c \<noteq> None"
  by (induction xs arbitrary: acc) (auto split: option.splits)

lemma filter_none: "\<forall>c \<in> set xs. \<not> P c \<Longrightarrow> filter P xs = []"
  by (induction xs) auto

lemma filter_all: "\<forall>c \<in> set xs. P c \<Longrightarrow> filter P xs = xs"
  by (induction xs) auto

lemma map_id_on: "\<forall>c \<in> set xs. f c = c \<Longrightarrow> map f xs = xs"
  by (induction xs) auto

lemma price_str_token:
  assumes sane: "sane U"
    and shape: "line = head @ [58] @ pre @ whole @ (if ds = [] then [] else sep # ds) @ post"
    and pre: "no_number_chars U pre" and post: "no_number_chars U post"
    and digits: "digits_value U 0 (whole @ ds) = Some n"
    and sep: "sep = 44 \<or> sep = 46"
  shows "price_str U line = whole @ (if ds = [] then [] else 46 # ds)"
proof -
  let ?keep = "\<lambda>c. py_isdigit U c \<or> c = 46 \<or> c = 44"
  let ?tok = "whole @ (if ds = [] then [] else sep # ds)"
  have dec: "\<forall>c \<in> set (whole @ ds). py_isdigit U c \<and> c \<noteq> 44 \<and> c \<noteq> 46 \<and> c \<noteq> 58"
    using digits_value_decimal [OF digits] sane by (auto simp: sane_def)
  have no58: "58 \<notin> set (pre @ ?tok @ post)"
    using pre post dec sep by (auto simp: no_number_chars_def list_all_iff)
  have last: "last (split_sep 58 line) = pre @ ?tok @ post"
    using split_sep_last [OF no58, of head] shape by simp
  have sp: "\<And>c. py_isspace U c \<Longrightarrow> \<not> ?keep c"
    using sane by (auto simp: sane_def)
  have "filter ?keep (strip U (pre @ ?tok @ post)) = filter ?keep (pre @ ?tok @ post)"
    using filter_strip [of U ?keep, OF sp] by blast
  also have "\<dots> = filter ?keep pre @ filter ?keep ?tok @ filter ?keep post"
    by simp
  also have "filter ?keep pre = []"
    using pre by (intro filter_none) (auto simp: no_number_chars_def list_all_iff)
  also have "filter ?keep post = []"
    using post by (intro filter_none) (auto simp: no_number_chars_def list_all_iff)
  also have "filter ?keep ?tok = ?tok"
    using dec sep by (intro filter_all) auto
  finally have kept: "filter ?keep (strip U (pre @ ?tok @ post)) = ?tok" by simp
  have "map (\<lambda>c. if c = 44 then 46 else c) whole = whole"
    using dec by (intro map_id_on) auto
  moreover have "map (\<lambda>c. if c = 44 then 46 else c) ds = ds"
    using dec by (intro map_id_on) auto
  ultimately have "map (\<lambda>c. if c = 44 then 46 else c) ?tok
                     = whole @ (if ds = [] then [] else 46 # ds)"
    using sep by auto
  then show ?thesis
    unfolding price_str_def last kept by simp
qed

lemma py_float_token:
  assumes sane: "sane U" and digits: "digits_value U 0 (whole @ ds) = Some n"
    and nonempty: "whole \<noteq> []"
  shows "py_float U (whole @ (if ds = [] then [] else 46 # ds))
           = Inr (Double n (length ds))"
proof -
  have dec: "46 \<notin> set whole" "46 \<notin> set ds"
    using digits_value_decimal [OF digits] sane by (auto simp: sane_def)
  show ?thesis
  proof (cases "ds = []")
    case True
    then show ?thesis
      using digits nonempty dec by (simp add: py_float_def split_sep_no_sep)
  next
    case False
    then show ?thesis
      using digits nonempty dec by (simp add: py_float_def split_sep_two)
  qed
qed

lemma set_price_token:
  assumes "sane U"
    and "line = head @ [58] @ pre @ whole @ (if ds = [] then [] else sep # ds) @ post"
    and "no_number_chars U pre" and "no_number_chars U post"
    and "whole \<noteq> []" and "digits_value U 0 (whole @ ds) = Some n"
    and "sep = 44 \<or> sep = 46"
  shows "set_price U line old = Some (Double n (length ds))"
  using price_str_token [OF assms(1-4) assms(6-7)]
    py_float_token [OF assms(1) assms(6) assms(5)] assms(5)
  by (simp add: set_price_def Let_def)

text \<open>One pass of the loop on a line with a price label.\<close>

lemma process_line_avg:
  "avg_label U raw \<Longrightarrow>
   process_line U lines r raw
     = Inr (r\<lparr>average_price := set_price U (strip U raw) (average_price r)\<rparr>)"
  by (simp add: process_line_def Let_def avg_label_def)

lemma process_line_min:
  "\<not> avg_label U raw \<Longrightarrow> min_label U raw \<Longrightarrow>
   process_line U lines r raw
     = Inr (r\<lparr>min_price := set_price U (strip U raw) (min_price r)\<rparr>)"
  by (simp add: process_line_def Let_def avg_label_def min_label_def)

text \<open>A line without a label leaves the price of that label as it is.\<close>

lemma process_line_keeps_avg:
  "\<not> avg_label U raw \<Longrightarrow> process_line U lines r raw = Inr r' \<Longrightarrow>
   average_price r' = average_price r"
  by (auto simp: process_line_def Let_def avg_label_def split: if_splits option.splits)

lemma process_line_keeps_min:
  "\<not> min_label U raw \<Longrightarrow> process_line U lines r raw = Inr r' \<Longrightarrow>
   min_price r' = min_price r"
  by (auto simp: process_line_def Let_def min_label_def split: if_splits option.splits)

lemma parse_lines_keeps_avg:
  "\<forall>l \<in> set rest. \<not> avg_label U l \<Longrightarrow>
   average_price (fst (parse_lines U lines r rest)) = average_price r"
proof (induction rest arbitrary: r)
  case Nil
  then show ?case by simp
next
  case (Cons raw rest)
  show ?case
  proof (cases "process_line U lines r raw")
    case (Inl e)
    then show ?thesis by simp
  next
    case (Inr r')
    then have "average_price r' = average_price r"
      using Cons.prems process_line_keeps_avg [of U raw lines r r'] by simp
    then show ?thesis using Cons Inr by simp
  qed
qed

lemma parse_lines_keeps_min:
  "\<forall>l \<in> set rest. \<not> min_label U l \<Longrightarrow>
   min_price (fst (parse_lines U lines r rest)) = min_price r"
proof (induction rest arbitrary: r)
  case Nil
  then show ?case by simp
next
  case (Cons raw rest)
  show ?case
  proof (cases "process_line U lines r raw")
    case (Inl e)
    then show ?thesis by simp
  next
    case (Inr r')
    then have "min_price r' = min_price r"
      using Cons.prems process_line_keeps_min [of U raw lines r r'] by simp
    then show ?thesis using Cons Inr by simp
  qed
qed

text \<open>The loop over a list of lines is the loop over its front, then over its back.\<close>

lemma parse_lines_append:
  "parse_lines U lines r (xs @ ys)
     = (case parse_lines U lines r xs of
          (r', Some e) \<Rightarrow> (r', Some e)
        | (r', None) \<Rightarrow> parse_lines U lines r' ys)"
  by (induction xs arbitrary: r) (auto split: sum.splits)

text \<open>The prices \<open>_parse_response\<close> returns are those the loop has left.\<close>

lemma parse_response_prices:
  "\<exists>r. parse_response U response_text = Inr r
       \<and> average_price r
           = average_price
               (fst (parse_lines U (split_sep 10 (strip U response_text))
                       \<lparr>average_price = None, min_price = None, analysis = []\<rparr>
                       (split_sep 10 (strip U response_text))))
       \<and> min_price r
           = min_price
               (fst (parse_lines U (split_sep 10 (strip U response_text))
                       \<lparr>average_price = None, min_price = None, analysis = []\<rparr>
                       (split_sep 10 (strip U response_text))))"
  by (cases "parse_lines U (split_sep 10 (strip U response_text))
                \<lparr>average_price = None, min_price = None, analysis = []\<rparr>
                (split_sep 10 (strip U response_text))")
     (auto simp: parse_response_def Let_def split: option.splits)

text \<open>
  C6, as the code has it.  Take any response text and any line \<open>raw\<close> of it that the
  loop reaches (the loop over the lines before it has not raised).  If \<open>raw\<close> matches
  a price label (the stripped line, in upper case, contains the Russian or the English
  label; the average-price label is tested first), the parser hands to \<open>float\<close> what
  is left of the text after the last colon once every character but digits, dots and
  commas is dropped and commas are read as dots.  So when that text holds one numeric
  token (digits \<open>whole\<close>, then possibly a dot or comma \<open>sep\<close> and digits \<open>ds\<close>)
  and no other digit, dot or comma, and no later line carries the same label, the price
  \<open>_parse_response\<close> returns under that label is \<open>float\<close> of the token, with a comma
  read as the decimal point.
\<close>

theorem price_of_reached_line:
  assumes "sane U"
    and "split_sep 10 (strip U response_text) = before @ raw # after"
    and "snd (parse_lines U (before @ raw # after)
                \<lparr>average_price = None, min_price = None, analysis = []\<rparr> before) = None"
    and "strip U raw = head @ [58] @ pre @ whole @ (if ds = [] then [] else sep # ds) @ post"
    and "no_number_chars U pre" and "no_number_chars U post"
    and "whole \<noteq> []" and "digits_value U 0 (whole @ ds) = Some n"
    and "sep = 44 \<or> sep = 46"
  shows "\<exists>r. parse_response U response_text = Inr r
           \<and> (avg_label U raw \<and> (\<forall>l \<in> set after. \<not> avg_label U l)
                \<longrightarrow> average_price r = Some (Double n (length ds)))
           \<and> (\<not> avg_label U raw \<and> min_label U raw \<and> (\<forall>l \<in> set after. \<not> min_label U l)
                \<longrightarrow> min_price r = Some (Double n (length ds)))"
proof -
  define lines where "lines = before @ raw # after"
  define init where "init = \<lparr>average_price = None, min_price = None, analysis = []\<rparr>"
  define r1 where "r1 = fst (parse_lines U lines init before)"
  have front: "parse_lines U lines init before = (r1, None)"
    using assms(3) by (simp add: r1_def lines_def init_def prod_eq_iff)
  have token: "set_price U (strip U raw) old = Some (Double n (length ds))" for old
    by (rule set_price_token [OF assms(1) assms(4-9)])
  have whole_loop: "parse_lines U lines init lines
      = (case process_line U lines r1 raw of
           Inl e \<Rightarrow> (r1, Some e)
         | Inr r2 \<Rightarrow> parse_lines U lines r2 after)"
    using front
    by (simp add: lines_def [symmetric]
          parse_lines_append [of U lines init before "raw # after", folded lines_def])
  obtain r where r: "parse_response U response_text = Inr r"
    and avg: "average_price r = average_price (fst (parse_lines U lines init lines))"
    and mn: "min_price r = min_price (fst (parse_lines U lines init lines))"
    using parse_response_prices [of U response_text] assms(2)
    by (auto simp: lines_def init_def)
  have "average_price r = Some (Double n (length ds))"
    if "avg_label U raw" and "\<forall>l \<in> set after. \<not> avg_label U l"
  proof -
    have "process_line U lines r1 raw
            = Inr (r1\<lparr>average_price := Some (Double n (length ds))\<rparr>)"
      using process_line_avg [OF that(1)] token by simp
    then show ?thesis
      using avg whole_loop parse_lines_keeps_avg [OF that(2)] by simp
  qed
  moreover have "min_price r = Some (Double n (length ds))"
    if "\<not> avg_label U raw" and "min_label U raw" and "\<forall>l \<in> set after. \<not> min_label U l"
  proof -
    have "process_line U lines r1 raw
            = Inr (r1\<lparr>min_price := Some (Double n (length ds))\<rparr>)"
      using process_line_min [OF that(1,2)] token by simp
    then show ?thesis
      using mn whole_loop parse_lines_keeps_min [OF that(3)] by simp
  qed
  ultimately show ?thesis using r by blast
qed

lemma sane_tbl: "sane tbl"
  by (auto simp: sane_def tbl_def split: if_splits)

text \<open>
  The parsing example of the specification: its lines, the shape of the first one,
  and the labels of the other two.
\<close>

lemma spec_example_lines:
  "split_sep 10 (strip tbl spec_example)
     = [] @ (AVG_RU @ ascii '' 280,5 '' @ [1075, 1088, 1085])
          # [MIN_RU @ ascii '' 240 '' @ [1075, 1088, 1085],
             ANALYSIS_RU @ ascii '' test source X'']"
  by code_simp

lemma spec_example_reached:
  "snd (parse_lines tbl
          ([] @ (AVG_RU @ ascii '' 280,5 '' @ [1075, 1088, 1085])
             # [MIN_RU @ ascii '' 240 '' @ [1075, 1088, 1085],
                ANALYSIS_RU @ ascii '' test source X''])
          \<lparr>average_price = None, min_price = None, analysis = []\<rparr> []) = None"
  by simp

lemma spec_example_first_line:
  "strip tbl (AVG_RU @ ascii '' 280,5 '' @ [1075, 1088, 1085])
     = [1057, 1056, 1045, 1044, 1053, 1071, 1071, 32, 1062, 1045, 1053, 1040] @ [58] @ [32]
       @ ascii ''280'' @ (if ascii ''5'' = [] then [] else 44 # ascii ''5'')
       @ [32, 1075, 1088, 1085]"
  by code_simp

lemma spec_example_digits: "digits_value tbl 0 (ascii ''280'' @ ascii ''5'') = Some 2805"
  by code_simp

lemma spec_example_around:
  "no_number_chars tbl [32]" "no_number_chars tbl [32, 1075, 1088, 1085]"
  by code_simp+

lemma spec_example_labels:
  "avg_label tbl (AVG_RU @ ascii '' 280,5 '' @ [1075, 1088, 1085])"
  "\<not> avg_label tbl (MIN_RU @ ascii '' 240 '' @ [1075, 1088, 1085])"
  "\<not> avg_label tbl (ANALYSIS_RU @ ascii '' test source X'')"
  by code_simp+

theorem price_of_reached_line_witness:
  "average_price (projr (parse_response tbl spec_example)) = Some (Double 2805 1)
   \<and> length (ascii ''5'') = 1"
  using price_of_reached_line
          [OF sane_tbl spec_example_lines spec_example_reached spec_example_first_line
              spec_example_around _ spec_example_digits]
        spec_example_labels
  by (auto simp: ascii_def)

text \<open>
  The labels are matched whatever their case: the Russian average-price label with
  only its first letter in upper case, and the English minimum-price label in lower
  case.
\<close>

lemma labels_any_case:
  "avg_label tbl
     ([1057, 1088, 1077, 1076, 1085, 1103, 1103, 32, 1094, 1077, 1085, 1072, 58]
      @ ascii '' 280,5'')"
  "min_label tbl (ascii ''min price: 240'')"
  by code_simp+

lemma spec_example_parsed:
  "parse_response tbl spec_example
     = Inr \<lparr>average_price = Some (Double 2805 1), min_price = Some (Double 240 0),
            analysis = ascii ''test source X''\<rparr>"
  by code_simp

text \<open>
  C6 as the claim words it ("numbers appearing later in the same line do not affect the
  extracted value") fails: the first numeric token of both lines is 280, and the digits
  of the later number 300 are read as part of the price, which is \<open>float\<close> of "280300"
  in place of \<open>float\<close> of "280".
\<close>

theorem later_number_changes_price:
  "parse_response tbl (ascii ''AVERAGE PRICE: 280 UAH (was 300)'')
     = Inr \<lparr>average_price = Some (Double 280300 0), min_price = None,
            analysis = ascii ''AVERAGE PRICE: 280 UAH (was 300)''\<rparr>
   \<and> parse_response tbl (ascii ''AVERAGE PRICE: 280 UAH'')
     = Inr \<lparr>average_price = Some (Double 280 0), min_price = None,
            analysis = ascii ''AVERAGE PRICE: 280 UAH''\<rparr>"
  by code_simp

end
